theory Spec2Isabelle
  imports Complex_Main "HOL-Library.Char_ord" "HOL-Library.List_Lexorder"
begin

section \<open>Values, exceptions and effects shared by the three adapters\<close>

text \<open>
  A Python \<open>str\<close> is modelled as a \<open>string\<close> in which every \<open>char\<close> stands for one
  code point below 256, so that slicing and \<open>len\<close> count what Python counts. A Python
  \<open>float\<close> is only passed along, tested for truth and printed by the adapters; it is
  modelled by the real number it denotes. A \<open>dict\<close> is an association list in insertion
  order; a \<open>dict\<close> built by Python has distinct keys.
\<close>

datatype json =
    JNull
  | JBool bool
  | JInt int
  | JFloat real
  | JStr string
  | JList "json list"
  | JDict "(string \<times> json) list"

type_synonym pydict = "(string \<times> json) list"

text \<open>
  The classes of \<open>BaseException\<close> the \<open>except\<close> clauses of the adapters tell apart:
  instances of \<open>Exception\<close>, \<open>SystemExit\<close>, and every other \<open>BaseException\<close>
  (\<open>KeyboardInterrupt\<close>, \<open>GeneratorExit\<close>). The string is the message.
\<close>

datatype py_exn = Exception string | SystemExit string | BaseException string

text \<open>\<open>except Exception\<close> and \<open>isinstance(r, Exception)\<close>.\<close>

fun is_Exception :: "py_exn \<Rightarrow> bool" where
  "is_Exception (Exception m) = True"
| "is_Exception (SystemExit m) = False"
| "is_Exception (BaseException m) = False"

text \<open>\<open>except (SystemExit, Exception)\<close>.\<close>

fun is_SystemExit_or_Exception :: "py_exn \<Rightarrow> bool" where
  "is_SystemExit_or_Exception (Exception m) = True"
| "is_SystemExit_or_Exception (SystemExit m) = True"
| "is_SystemExit_or_Exception (BaseException m) = False"

fun exn_message :: "py_exn \<Rightarrow> string" where
  "exn_message (Exception m) = m"
| "exn_message (SystemExit m) = m"
| "exn_message (BaseException m) = m"

text \<open>
  A \<open>pathlib.Path\<close> is kept as the expression that built it: \<open>Path s\<close> and
  \<open>p / s\<close>. \<open>Path()\<close> is \<open>Path ''.''\<close>.
\<close>

datatype path = Path string | Slash path string

fun str_path :: "path \<Rightarrow> string" where
  "str_path (Path s) = s"
| "str_path (Slash p s) = str_path p @ ''/'' @ s"

text \<open>
  What a file holds: the value handed to \<open>json.dump\<close>/\<open>json.dumps\<close>, text, or bytes.
\<close>

datatype content = JsonDump json | TextData string | BytesData string

datatype level = INFO | WARNING | ERROR | STDOUT

text \<open>The requests the adapters send.\<close>

record http_request =
  url :: string
  headers :: "(string \<times> string) list"
  json_payload :: json

record optimade_client =
  base_urls :: "string list"
  max_results_per_provider :: int
  http_timeout :: real

record mof_filters =
  mofid :: "string option"
  mofkey :: "string option"
  vf_min :: "real option"
  vf_max :: "real option"
  lcd_min :: "real option"
  lcd_max :: "real option"
  pld_min :: "real option"
  pld_max :: "real option"
  sa_m2g_min :: "real option"
  sa_m2g_max :: "real option"
  sa_m2cm3_min :: "real option"
  sa_m2cm3_max :: "real option"
  name :: "string option"
  database :: "string option"

record fetch_kwargs = mof_filters +
  limit :: int

text \<open>
  Every effect of a tool, in the order the code performs it. A function with effects
  returns its events and either the exception it raised (\<open>Inl\<close>) or its value.
\<close>

datatype event =
    Mkdir path
  | WriteFile path content
  | Log level string
  | HttpPost http_request
  | HttpGet json nat
  | ClientGet optimade_client string
  | FetchCall fetch_kwargs
  | SaveStructures json path int bool

type_synonym 'a io = "event list \<times> (py_exn + 'a)"

text \<open>
  Library functions the adapters call and the repository does not define:
  \<open>hashlib.sha1(s.encode("utf-8")).hexdigest()\<close>,
  \<open>json.dumps(v, sort_keys=True)\<close>, \<open>json.loads\<close> (\<open>None\<close> when it raises), and
  \<open>str\<close> on a float, a list or a dict.
\<close>

record pylib =
  sha1_hexdigest :: "string \<Rightarrow> string"
  json_dumps_sorted :: "json \<Rightarrow> string"
  json_loads :: "string \<Rightarrow> json option"
  str_other :: "json \<Rightarrow> string"

record FetchResult =
  output_dir :: path
  cleaned_structures :: "pydict list"
  n_found :: int

record MofFetchResult = FetchResult +
  code :: int
  message :: string

record datetime =
  year :: nat
  month :: nat
  day :: nat
  hour :: nat
  minute :: nat
  second :: nat

subsection \<open>Python built-ins\<close>

fun truthy :: "json \<Rightarrow> bool" where
  "truthy JNull = False"
| "truthy (JBool b) = b"
| "truthy (JInt i) = (i \<noteq> 0)"
| "truthy (JFloat x) = (x \<noteq> 0)"
| "truthy (JStr s) = (s \<noteq> [])"
| "truthy (JList xs) = (xs \<noteq> [])"
| "truthy (JDict d) = (d \<noteq> [])"

fun dec :: "nat \<Rightarrow> string" where
  "dec n = (if n < 10 then [''0123456789'' ! n]
            else dec (n div 10) @ [''0123456789'' ! (n mod 10)])"

definition str_int :: "int \<Rightarrow> string" where
  "str_int i = (if i < 0 then ''-'' @ dec (nat (- i)) else dec (nat i))"

fun py_str :: "pylib \<Rightarrow> json \<Rightarrow> string" where
  "py_str L JNull = ''None''"
| "py_str L (JBool b) = (if b then ''True'' else ''False'')"
| "py_str L (JInt i) = str_int i"
| "py_str L (JStr s) = s"
| "py_str L v = str_other L v"

text \<open>\<open>sep.join(xs)\<close>.\<close>

fun join :: "string \<Rightarrow> string list \<Rightarrow> string" where
  "join sep [] = []"
| "join sep [x] = x"
| "join sep (x # y # ys) = x @ sep @ join sep (y # ys)"

text \<open>\<open>s.replace(a, b)\<close> for a one-character \<open>a\<close>.\<close>

definition replace :: "char \<Rightarrow> string \<Rightarrow> string \<Rightarrow> string" where
  "replace a b s = concat (map (\<lambda>c. if c = a then b else [c]) s)"

text \<open>\<open>d.get(k)\<close> and \<open>d.pop(k, None)\<close>.\<close>

definition dict_get :: "pydict \<Rightarrow> string \<Rightarrow> json option" where
  "dict_get d k = map_of d k"

definition dict_pop :: "string \<Rightarrow> pydict \<Rightarrow> pydict" where
  "dict_pop k d = filter (\<lambda>kv. fst kv \<noteq> k) d"

text \<open>\<open>if x: ... f x ...\<close> for an optional string or list: nothing when it is \<open>None\<close> or empty.\<close>

fun given :: "'a list option \<Rightarrow> bool" where
  "given None = False"
| "given (Some xs) = (xs \<noteq> [])"

fun when_given :: "'a list option \<Rightarrow> ('a list \<Rightarrow> 'b) \<Rightarrow> 'b list" where
  "when_given None f = []"
| "when_given (Some xs) f = (if xs = [] then [] else [f xs])"

text \<open>\<open>x or ""\<close> for an optional string.\<close>

fun or_empty :: "string option \<Rightarrow> string" where
  "or_empty None = []"
| "or_empty (Some s) = s"

text \<open>\<open>tag[:max_len] or dflt\<close>, for the default \<open>dflt\<close>.\<close>

definition truncate_or :: "nat \<Rightarrow> string \<Rightarrow> string \<Rightarrow> string" where
  "truncate_or max_len dflt tag = (if take max_len tag = [] then dflt else take max_len tag)"

text \<open>\<open>None\<close> or the value, as JSON.\<close>

fun opt_str :: "string option \<Rightarrow> json" where
  "opt_str None = JNull"
| "opt_str (Some s) = JStr s"

fun opt_float :: "real option \<Rightarrow> json" where
  "opt_float None = JNull"
| "opt_float (Some x) = JFloat x"

definition str_list :: "string list \<Rightarrow> json" where
  "str_list xs = JList (map JStr xs)"

text \<open>\<open>s.strip()\<close>: the white space of Python among the code points below 256.\<close>

definition is_space :: "char \<Rightarrow> bool" where
  "is_space c = ((of_char c :: nat) \<in> {9, 10, 11, 12, 13, 28, 29, 30, 31, 32, 133, 160})"

definition strip :: "string \<Rightarrow> string" where
  "strip s = rev (dropWhile is_space (rev (dropWhile is_space s)))"

text \<open>The zero-result default every early return of the tools builds.\<close>

definition zero_result :: FetchResult where
  "zero_result = \<lparr>output_dir = Path ''.'', cleaned_structures = [], n_found = 0\<rparr>"

text \<open>\<open>datetime.strftime("%Y%m%d_%H%M%S")\<close>, for a year of four digits.\<close>

definition pad2 :: "nat \<Rightarrow> string" where
  "pad2 n = (if n < 10 then ''0'' @ dec n else dec n)"

definition strftime :: "datetime \<Rightarrow> string" where
  "strftime t = dec (year t) @ pad2 (month t) @ pad2 (day t) @ ''_''
                @ pad2 (hour t) @ pad2 (minute t) @ pad2 (second t)"

section \<open>Bohrium public database adapter\<close>

subsection \<open>\<open>Bohriumpublic_Server/utils.py\<close>\<close>

definition DB_CORE_HOST :: string where
  "DB_CORE_HOST = ''https://db-core.dp.tech''"

definition x_user_id :: string where
  "x_user_id = ''117756''"

definition CRYSTAL_DROP_ATTRS :: "string list" where
  "CRYSTAL_DROP_ATTRS = [''cif_file'', ''come_from'', ''material_id'']"

text \<open>The six filters \<open>tag_from_filters\<close> receives by keyword.\<close>

record bohrium_filters =
  formula :: "string option"
  elements :: "string list option"
  space_symbol :: "string option"
  atom_count_range :: "string list option"
  predicted_formation_energy_range :: "string list option"
  band_gap_range :: "string list option"

definition tag_from_filters_bohrium :: "'a bohrium_filters_scheme \<Rightarrow> nat \<Rightarrow> string" where
  "tag_from_filters_bohrium f max_len =
     (let parts =
            when_given (formula f) (replace CHR '' '' [])
          @ when_given (elements f) (\<lambda>xs. ''el'' @ concat (sort xs))
          @ when_given (space_symbol f) (\<lambda>s. ''sg'' @ s)
          @ when_given (atom_count_range f) (\<lambda>xs. ''nat'' @ join ''-'' xs)
          @ when_given (predicted_formation_energy_range f) (\<lambda>xs. ''E'' @ join ''-'' xs)
          @ when_given (band_gap_range f) (\<lambda>xs. ''Eg'' @ join ''-'' xs);
          tag = join ''_'' parts
      in truncate_or max_len ''bohriumcrystal'' tag)"

text \<open>
  The world of the Bohrium adapter: \<open>requests.post(...)\<close> followed by
  \<open>response.json()\<close>; \<open>requests.get(url, timeout=30)\<close> followed by
  \<open>raise_for_status()\<close> and \<open>.content\<close> (the second argument is the timeout); the
  clock.
\<close>

record bohrium_world =
  http_post :: "http_request \<Rightarrow> py_exn + json"
  http_get :: "json \<Rightarrow> nat \<Rightarrow> py_exn + string"
  now_bohrium :: datetime

text \<open>
  The body of the loop of \<open>save_structures_bohriumcrystal\<close> for the record at index
  \<open>i\<close>: the JSON file, the CIF download, the cleaned copy.
\<close>

definition struct_id_of :: "nat \<Rightarrow> pydict \<Rightarrow> json" where
  "struct_id_of i struct =
     (case dict_get struct ''id'' of None \<Rightarrow> JStr (''idx'' @ dec i) | Some v \<Rightarrow> v)"

definition bohrium_name :: "pylib \<Rightarrow> nat \<Rightarrow> pydict \<Rightarrow> string" where
  "bohrium_name L i struct =
     ''bohriumcrystal_'' @ py_str L (struct_id_of i struct) @ ''_'' @ dec i"

definition save_json_bohrium ::
  "pylib \<Rightarrow> path \<Rightarrow> string list \<Rightarrow> nat \<Rightarrow> pydict \<Rightarrow> event list" where
  "save_json_bohrium L out_dir formats i struct =
     (if ''json'' \<in> set formats
      then [WriteFile (Slash out_dir (bohrium_name L i struct @ ''.json''))
                      (JsonDump (JDict struct))]
      else [])"

definition save_cif_bohrium ::
  "pylib \<Rightarrow> bohrium_world \<Rightarrow> path \<Rightarrow> string list \<Rightarrow> nat \<Rightarrow> pydict \<Rightarrow> unit io" where
  "save_cif_bohrium L W out_dir formats i struct =
     (let struct_id = py_str L (struct_id_of i struct); nm = bohrium_name L i struct in
      if ''cif'' \<in> set formats then
        (case dict_get struct ''cif_file'' of
           None \<Rightarrow> ([Log WARNING (''No CIF URL for '' @ struct_id)], Inr ())
         | Some cif_url \<Rightarrow>
             if \<not> truthy cif_url
             then ([Log WARNING (''No CIF URL for '' @ struct_id)], Inr ())
             else (case http_get W cif_url 30 of
                     Inr body \<Rightarrow>
                       ([HttpGet cif_url 30,
                         WriteFile (Slash out_dir (nm @ ''.cif'')) (BytesData body),
                         Log INFO (''Saved CIF for '' @ struct_id @ '' -> '' @ nm @ ''.cif'')],
                        Inr ())
                   | Inl e \<Rightarrow>
                       if is_Exception e
                       then ([HttpGet cif_url 30,
                              Log ERROR (''Failed to download CIF for '' @ struct_id @ '': ''
                                         @ exn_message e)],
                             Inr ())
                       else ([HttpGet cif_url 30], Inl e)))
      else ([], Inr ()))"

definition save_one_bohrium ::
  "pylib \<Rightarrow> bohrium_world \<Rightarrow> path \<Rightarrow> string list \<Rightarrow> nat \<Rightarrow> pydict \<Rightarrow> unit io" where
  "save_one_bohrium L W out_dir formats i struct =
     (case save_cif_bohrium L W out_dir formats i struct of
        (ev, r) \<Rightarrow> (save_json_bohrium L out_dir formats i struct @ ev, r))"

definition clean_bohrium :: "pydict \<Rightarrow> pydict" where
  "clean_bohrium struct = fold dict_pop CRYSTAL_DROP_ATTRS struct"

text \<open>
  \<open>for i, struct in enumerate(items)\<close>, from index \<open>i\<close> on, with the list \<open>cleaned\<close>
  built so far. An exception that leaves the body ends the loop.
\<close>

fun save_loop_bohrium ::
  "pylib \<Rightarrow> bohrium_world \<Rightarrow> path \<Rightarrow> string list \<Rightarrow> nat \<Rightarrow> pydict list \<Rightarrow> pydict list
   \<Rightarrow> pydict list io" where
  "save_loop_bohrium L W out_dir formats i [] cleaned = ([], Inr cleaned)"
| "save_loop_bohrium L W out_dir formats i (struct # items) cleaned =
     (case save_one_bohrium L W out_dir formats i struct of
        (ev, Inl e) \<Rightarrow> (ev, Inl e)
      | (ev, Inr u) \<Rightarrow>
          (case save_loop_bohrium L W out_dir formats (Suc i) items
                  (cleaned @ [clean_bohrium struct]) of
             (ev', r) \<Rightarrow> (ev @ ev', r)))"

definition save_structures_bohriumcrystal ::
  "pylib \<Rightarrow> bohrium_world \<Rightarrow> pydict list \<Rightarrow> path \<Rightarrow> string list \<Rightarrow> pydict list io" where
  "save_structures_bohriumcrystal L W items out_dir formats =
     save_loop_bohrium L W out_dir formats 0 items []"

subsection \<open>\<open>bohriumpublic_test/test_server.py\<close>\<close>

definition BASE_OUTPUT_DIR_bohrium :: path where
  "BASE_OUTPUT_DIR_bohrium = Path ''materials_data_bohrium''"

record bohrium_args = bohrium_filters +
  match_mode :: int
  n_results_b :: int
  output_formats_b :: "string list"

text \<open>Step 1: the \<open>filters\<close> dict, one key for each filter that is given.\<close>

definition bohrium_filters_dict :: "'a bohrium_filters_scheme \<Rightarrow> pydict" where
  "bohrium_filters_dict a =
       when_given (elements a) (\<lambda>xs. (''elements'', str_list xs))
     @ when_given (space_symbol a) (\<lambda>s. (''space_symbol'', JStr s))
     @ when_given (atom_count_range a) (\<lambda>xs. (''atomCountRange'', str_list xs))
     @ when_given (predicted_formation_energy_range a)
         (\<lambda>xs. (''predicted_formation_energy_range'', str_list xs))
     @ when_given (band_gap_range a) (\<lambda>xs. (''band_gap_range'', str_list xs))"

text \<open>Step 2: the headers and the payload of the one POST request.\<close>

definition bohrium_headers :: "(string \<times> string) list" where
  "bohrium_headers = [(''X-User-Id'', x_user_id), (''Content-Type'', ''application/json'')]"

definition bohrium_payload :: "bohrium_args \<Rightarrow> json" where
  "bohrium_payload a =
     JDict [(''material_type'', JStr ''5''),
            (''keyword'', JStr (or_empty (formula a))),
            (''positive_pole_key'', JDict (bohrium_filters_dict a)),
            (''match_mode'',
               JInt (if given (formula a) \<or> given (elements a) then match_mode a else 0)),
            (''sort_filed_info'',
               JDict [(''sort_filed'', JStr ''crystal_ext.predicted_formation_energy''),
                      (''sort_type'', JInt 1)]),
            (''size'', JInt (n_results_b a)),
            (''page'', JInt 1)]"

definition bohrium_request :: "bohrium_args \<Rightarrow> http_request" where
  "bohrium_request a =
     \<lparr>url = DB_CORE_HOST @ ''/api/v1/crystal/list'', headers = bohrium_headers,
      json_payload = bohrium_payload a\<rparr>"

text \<open>
  \<open>data.get("data", {}).get("data", [])\<close>: \<open>.get\<close> on a value that is not a dict raises
  \<open>AttributeError\<close>.
\<close>

definition items_of :: "json \<Rightarrow> py_exn + json" where
  "items_of data =
     (case data of
        JDict d \<Rightarrow>
          (case dict_get d ''data'' of
             None \<Rightarrow> Inr (JList [])
           | Some (JDict d') \<Rightarrow>
               (case dict_get d' ''data'' of None \<Rightarrow> Inr (JList []) | Some v \<Rightarrow> Inr v)
           | Some v \<Rightarrow> Inl (Exception ''AttributeError''))
      | v \<Rightarrow> Inl (Exception ''AttributeError''))"

text \<open>\<open>len(items)\<close>: \<open>TypeError\<close> on a value without a length.\<close>

fun py_len :: "json \<Rightarrow> py_exn + nat" where
  "py_len (JList xs) = Inr (length xs)"
| "py_len (JDict d) = Inr (length d)"
| "py_len (JStr s) = Inr (length s)"
| "py_len v = Inl (Exception ''TypeError'')"

text \<open>
  What \<open>enumerate(items)\<close> yields, and the dicts at its front. The loop body calls
  \<open>struct.get\<close>, which raises \<open>AttributeError\<close> on the first element that is not a dict.
\<close>

fun py_iter :: "json \<Rightarrow> json list" where
  "py_iter (JList xs) = xs"
| "py_iter (JDict d) = map (\<lambda>kv. JStr (fst kv)) d"
| "py_iter (JStr s) = map (\<lambda>c. JStr [c]) s"
| "py_iter v = []"

fun is_dict :: "json \<Rightarrow> bool" where
  "is_dict (JDict d) = True"
| "is_dict v = False"

fun the_dict :: "json \<Rightarrow> pydict" where
  "the_dict (JDict d) = d"
| "the_dict v = []"

definition leading_dicts :: "json \<Rightarrow> pydict list" where
  "leading_dicts items = map the_dict (takeWhile is_dict (py_iter items))"

text \<open>Step 3: the string that is hashed, and the output folder.\<close>

definition bohrium_filter_str :: "pylib \<Rightarrow> bohrium_args \<Rightarrow> string" where
  "bohrium_filter_str L a =
     or_empty (formula a) @ ''|n_results='' @ str_int (n_results_b a) @ ''|filters=''
     @ json_dumps_sorted L (JDict (bohrium_filters_dict a))"

definition bohrium_output_dir :: "pylib \<Rightarrow> datetime \<Rightarrow> bohrium_args \<Rightarrow> path" where
  "bohrium_output_dir L t a =
     (let filter_str = bohrium_filter_str L a;
          tag = tag_from_filters_bohrium a 60;
          ts = strftime t;
          short_hash = take 8 (sha1_hexdigest L filter_str)
      in Slash BASE_OUTPUT_DIR_bohrium (tag @ ''_'' @ ts @ ''_'' @ short_hash))"

text \<open>Step 5: the manifest.\<close>

definition bohrium_manifest :: "bohrium_args \<Rightarrow> int \<Rightarrow> path \<Rightarrow> json" where
  "bohrium_manifest a found out_dir =
     JDict [(''formula'', opt_str (formula a)),
            (''filters'', JDict (bohrium_filters_dict a)),
            (''match_mode'', JInt (match_mode a)),
            (''n_found'', JInt found),
            (''formats'', str_list (output_formats_b a)),
            (''output_dir'', JStr (str_path out_dir))]"

definition fetch_bohrium_crystals ::
  "pylib \<Rightarrow> bohrium_world \<Rightarrow> bohrium_args \<Rightarrow> FetchResult io" where
  "fetch_bohrium_crystals L W a =
     (let req = bohrium_request a in
      case http_post W req of
        Inl err \<Rightarrow>
          if is_Exception err
          then ([HttpPost req, Log ERROR (''Request failed: '' @ exn_message err)],
                Inr zero_result)
          else ([HttpPost req], Inl err)
      | Inr data \<Rightarrow>
          (case items_of data of
             Inl e \<Rightarrow> ([HttpPost req], Inl e)
           | Inr items \<Rightarrow>
               (case py_len items of
                  Inl e \<Rightarrow> ([HttpPost req], Inl e)
                | Inr len \<Rightarrow>
                    if len = 0
                    then ([HttpPost req, Log WARNING ''No structures found.''], Inr zero_result)
                    else
                      (let out_dir = bohrium_output_dir L (now_bohrium W) a;
                           pre = [HttpPost req, Mkdir out_dir] in
                       case save_structures_bohriumcrystal L W (leading_dicts items) out_dir
                              (output_formats_b a) of
                         (ev, Inl e) \<Rightarrow> (pre @ ev, Inl e)
                       | (ev, Inr cleaned) \<Rightarrow>
                           if length (leading_dicts items) < len
                           then (pre @ ev, Inl (Exception ''AttributeError''))
                           else (pre @ ev
                                 @ [WriteFile (Slash out_dir ''summary.json'')
                                      (JsonDump (bohrium_manifest a (int len) out_dir))],
                                 Inr \<lparr>output_dir = out_dir, cleaned_structures = cleaned,
                                      n_found = int len\<rparr>)))))"

section \<open>MOFdb adapter\<close>

subsection \<open>\<open>mofdb_test/utils.py\<close>\<close>

definition MOFDB_DROP_ATTRS :: "string list" where
  "MOFDB_DROP_ATTRS =
     [''cif'', ''json_repr'', ''isotherms'', ''heats'', ''isotherms_filtered'', ''heats_filtered'']"

text \<open>\<open>f"{x or ''}"\<close> for an optional float: empty for \<open>None\<close> and for zero.\<close>

fun float_or_empty :: "pylib \<Rightarrow> real option \<Rightarrow> string" where
  "float_or_empty L None = []"
| "float_or_empty L (Some x) = (if x \<noteq> 0 then py_str L (JFloat x) else [])"

definition range_part :: "pylib \<Rightarrow> string \<Rightarrow> real option \<Rightarrow> real option \<Rightarrow> string list" where
  "range_part L prefix lo hi =
     (if lo \<noteq> None \<or> hi \<noteq> None
      then [prefix @ float_or_empty L lo @ ''-'' @ float_or_empty L hi] else [])"

definition tag_from_filters_mofdb :: "pylib \<Rightarrow> 'a mof_filters_scheme \<Rightarrow> nat \<Rightarrow> string" where
  "tag_from_filters_mofdb L f max_len =
     (let parts =
            when_given (mofid f) (\<lambda>s. ''id'' @ take 8 s)
          @ when_given (mofkey f) (\<lambda>s. ''key'' @ take 8 s)
          @ when_given (name f) (replace CHR '' '' ''_'')
          @ when_given (database f) (replace CHR '' '' [])
          @ range_part L ''vf'' (vf_min f) (vf_max f)
          @ range_part L ''lcd'' (lcd_min f) (lcd_max f)
          @ range_part L ''pld'' (pld_min f) (pld_max f)
          @ range_part L ''sa_g'' (sa_m2g_min f) (sa_m2g_max f)
          @ range_part L ''sa_cm3'' (sa_m2cm3_min f) (sa_m2cm3_max f);
          tag = join ''_'' (filter (\<lambda>p. p \<noteq> []) parts)
      in truncate_or max_len ''mofdb'' tag)"

text \<open>\<open>_safe_basename\<close>: the two regular expressions are written out.\<close>

definition safe_char :: "char \<Rightarrow> bool" where
  "safe_char c =
     (c \<in> set ''ABCDEFGHIJKLMNOPQRSTUVWXYZabcdefghijklmnopqrstuvwxyz0123456789._-'')"

fun collapse_underscores :: "string \<Rightarrow> string" where
  "collapse_underscores [] = []"
| "collapse_underscores [c] = [c]"
| "collapse_underscores (c # d # cs) =
     (if c = CHR ''_'' \<and> d = CHR ''_'' then collapse_underscores (d # cs)
      else c # collapse_underscores (d # cs))"

definition strip_underscores :: "string \<Rightarrow> string" where
  "strip_underscores s =
     rev (dropWhile (\<lambda>c. c = CHR ''_'') (rev (dropWhile (\<lambda>c. c = CHR ''_'') s)))"

definition safe_basename :: "pylib \<Rightarrow> json \<Rightarrow> nat \<Rightarrow> string" where
  "safe_basename L text max_len =
     (let t0 = (if text = JNull then ''mof'' else py_str L text);
          t1 = replace CHR '' '' ''_'' (replace (CHR 0x5C) ''_'' (replace CHR ''/'' ''_'' t0));
          t2 = map (\<lambda>c. if safe_char c then c else CHR ''_'') t1;
          t3 = strip_underscores (collapse_underscores t2)
      in truncate_or max_len ''mof'' t3)"

text \<open>
  A MOF object is modelled by its \<open>__dict__\<close>; \<open>getattr(mof, k, None)\<close> reads it.
\<close>

definition getattr :: "pydict \<Rightarrow> string \<Rightarrow> json" where
  "getattr mof k = (case dict_get mof k of None \<Rightarrow> JNull | Some v \<Rightarrow> v)"

text \<open>\<open>a or b\<close>.\<close>

definition py_or :: "json \<Rightarrow> json \<Rightarrow> json" where
  "py_or a b = (if truthy a then a else b)"

definition pick_identifier :: "pylib \<Rightarrow> pydict \<Rightarrow> nat \<Rightarrow> string" where
  "pick_identifier L mof idx =
     (let ident = py_or (getattr mof ''name'')
                   (py_or (getattr mof ''mofkey'')
                     (py_or (getattr mof ''mofid'')
                       (py_or (getattr mof ''id'') (JStr (''idx'' @ dec idx)))))
      in safe_basename L ident 20)"

definition provider :: "pylib \<Rightarrow> pydict \<Rightarrow> string" where
  "provider L mof = safe_basename L (py_or (getattr mof ''database'') (JStr ''mofdb'')) 80"

definition mof_stem :: "pylib \<Rightarrow> nat \<Rightarrow> pydict \<Rightarrow> string" where
  "mof_stem L i mof =
     safe_basename L (JStr (provider L mof @ ''_'' @ pick_identifier L mof i @ ''_'' @ dec i)) 80"

text \<open>
  The data written as JSON: \<open>json_repr\<close> when the object has one (parsed when it is a
  string, wrapped as \<open>{"raw": ...}\<close> when it does not parse), the \<open>__dict__\<close> otherwise.
\<close>

definition mof_json_data :: "pylib \<Rightarrow> pydict \<Rightarrow> json" where
  "mof_json_data L mof =
     (case getattr mof ''json_repr'' of
        JNull \<Rightarrow> JDict mof
      | JStr s \<Rightarrow> (case json_loads L s of Some v \<Rightarrow> v | None \<Rightarrow> JDict [(''raw'', JStr s)])
      | v \<Rightarrow> v)"

definition save_json_mof :: "pylib \<Rightarrow> path \<Rightarrow> string list \<Rightarrow> nat \<Rightarrow> pydict \<Rightarrow> event list" where
  "save_json_mof L out_dir formats i mof =
     (if ''json'' \<in> set formats
      then [WriteFile (Slash out_dir (mof_stem L i mof @ ''.json'')) (JsonDump (mof_json_data L mof))]
      else [])"

text \<open>
  The CIF text is written as it is. \<open>f.write\<close> raises \<open>TypeError\<close> on a value that is
  not a string, after \<open>open\<close> has created the file; the error is logged.
\<close>

definition save_cif_mof :: "pylib \<Rightarrow> path \<Rightarrow> string list \<Rightarrow> nat \<Rightarrow> pydict \<Rightarrow> event list" where
  "save_cif_mof L out_dir formats i mof =
     (let prov = provider L mof; ident = pick_identifier L mof i; stem = mof_stem L i mof in
      if ''cif'' \<in> set formats then
        (let cif_txt = getattr mof ''cif'' in
         if truthy cif_txt then
           (case cif_txt of
              JStr s \<Rightarrow> [WriteFile (Slash out_dir (stem @ ''.cif'')) (TextData s)]
            | v \<Rightarrow> [WriteFile (Slash out_dir (stem @ ''.cif'')) (TextData []),
                    Log ERROR (''Failed to save CIF for '' @ ident @ '': TypeError'')])
         else [Log WARNING (''No CIF content for '' @ ident @ '' ('' @ prov @ '')'')])
      else [])"

definition save_one_mof :: "pylib \<Rightarrow> path \<Rightarrow> string list \<Rightarrow> nat \<Rightarrow> pydict \<Rightarrow> event list" where
  "save_one_mof L out_dir formats i mof =
     save_json_mof L out_dir formats i mof @ save_cif_mof L out_dir formats i mof"

definition clean_mof :: "pydict \<Rightarrow> pydict" where
  "clean_mof mof = fold dict_pop MOFDB_DROP_ATTRS mof"

fun save_loop_mofs ::
  "pylib \<Rightarrow> path \<Rightarrow> string list \<Rightarrow> nat \<Rightarrow> pydict list \<Rightarrow> pydict list
   \<Rightarrow> event list \<times> pydict list" where
  "save_loop_mofs L out_dir formats i [] cleaned = ([], cleaned)"
| "save_loop_mofs L out_dir formats i (mof # items) cleaned =
     (case save_loop_mofs L out_dir formats (Suc i) items (cleaned @ [clean_mof mof]) of
        (ev, r) \<Rightarrow> (save_one_mof L out_dir formats i mof @ ev, r))"

definition save_mofs ::
  "pylib \<Rightarrow> pydict list \<Rightarrow> path \<Rightarrow> string list \<Rightarrow> event list \<times> pydict list" where
  "save_mofs L items out_dir formats =
     (case save_loop_mofs L out_dir formats 0 items [] of
        (ev, cleaned) \<Rightarrow> (Mkdir out_dir # ev, cleaned))"

subsection \<open>\<open>Mofdb_Server/server.py\<close> and \<open>mofdb_test/test_server.py\<close>\<close>

definition BASE_OUTPUT_DIR_mofdb :: path where
  "BASE_OUTPUT_DIR_mofdb = Path ''materials_data_mofdb''"

definition MAX_RETURNED_STRUCTS_mofdb :: nat where
  "MAX_RETURNED_STRUCTS_mofdb = 30"

record fetch_mofs_args = mof_filters +
  n_results :: int
  output_formats :: "string list"

text \<open>The world of the MOFdb adapter: \<open>list(mofdb_client.fetch(...))\<close> and the clock.\<close>

record mofdb_world =
  fetch :: "fetch_kwargs \<Rightarrow> py_exn + pydict list"
  now_mofdb :: datetime

text \<open>Step 1: the keyword arguments of the call of \<open>fetch\<close>.\<close>

definition fetch_call :: "fetch_mofs_args \<Rightarrow> fetch_kwargs" where
  "fetch_call a =
     \<lparr>mofid = mofid a, mofkey = mofkey a,
      vf_min = vf_min a, vf_max = vf_max a,
      lcd_min = lcd_min a, lcd_max = lcd_max a,
      pld_min = pld_min a, pld_max = pld_max a,
      sa_m2g_min = sa_m2g_min a, sa_m2g_max = sa_m2g_max a,
      sa_m2cm3_min = sa_m2cm3_min a, sa_m2cm3_max = sa_m2cm3_max a,
      name = name a, database = database a,
      limit = n_results a\<rparr>"

text \<open>The dict literal that is hashed (step 2) and recorded in the manifest (step 4).\<close>

definition mof_filters_dict :: "fetch_mofs_args \<Rightarrow> json" where
  "mof_filters_dict a =
     JDict [(''mofid'', opt_str (mofid a)), (''mofkey'', opt_str (mofkey a)),
            (''name'', opt_str (name a)), (''database'', opt_str (database a)),
            (''vf_min'', opt_float (vf_min a)), (''vf_max'', opt_float (vf_max a)),
            (''lcd_min'', opt_float (lcd_min a)), (''lcd_max'', opt_float (lcd_max a)),
            (''pld_min'', opt_float (pld_min a)), (''pld_max'', opt_float (pld_max a)),
            (''sa_m2g_min'', opt_float (sa_m2g_min a)), (''sa_m2g_max'', opt_float (sa_m2g_max a)),
            (''sa_m2cm3_min'', opt_float (sa_m2cm3_min a)),
            (''sa_m2cm3_max'', opt_float (sa_m2cm3_max a)),
            (''n_results'', JInt (n_results a))]"

definition mof_output_dir :: "pylib \<Rightarrow> datetime \<Rightarrow> fetch_mofs_args \<Rightarrow> path" where
  "mof_output_dir L t a =
     (let filter_str = json_dumps_sorted L (mof_filters_dict a);
          tag = tag_from_filters_mofdb L a 40;
          ts = strftime t;
          short_hash = take 8 (sha1_hexdigest L filter_str)
      in Slash BASE_OUTPUT_DIR_mofdb (tag @ ''_'' @ ts @ ''_'' @ short_hash))"

definition mof_manifest :: "fetch_mofs_args \<Rightarrow> int \<Rightarrow> path \<Rightarrow> json" where
  "mof_manifest a found out_dir =
     JDict [(''filters'', mof_filters_dict a),
            (''n_found'', JInt found),
            (''formats'', str_list (output_formats a)),
            (''output_dir'', JStr (str_path out_dir))]"

text \<open>
  Steps 2 to 4 of the server's \<open>fetch_mofs\<close>, after \<open>results\<close> is bound: the cleaned list
  is cut to \<open>MAX_RETURNED_STRUCTS\<close> before \<open>n_found\<close> is taken.
\<close>

definition fetch_mofs_steps ::
  "pylib \<Rightarrow> mofdb_world \<Rightarrow> fetch_mofs_args \<Rightarrow> pydict list \<Rightarrow> event list \<times> MofFetchResult" where
  "fetch_mofs_steps L W a results =
     (let out_dir = mof_output_dir L (now_mofdb W) a in
      case save_mofs L results out_dir (output_formats a) of
        (ev, cleaned0) \<Rightarrow>
          (let cleaned = take MAX_RETURNED_STRUCTS_mofdb cleaned0;
               found = int (length cleaned)
           in ([Mkdir out_dir] @ ev
               @ [WriteFile (Slash out_dir ''summary.json'') (JsonDump (mof_manifest a found out_dir))],
               \<lparr>output_dir = out_dir, cleaned_structures = cleaned, n_found = found,
                code = 0, message = ''Success''\<rparr>)))"

definition fetch_mofs :: "pylib \<Rightarrow> mofdb_world \<Rightarrow> fetch_mofs_args \<Rightarrow> MofFetchResult io" where
  "fetch_mofs L W a =
     (case fetch W (fetch_call a) of
        Inr results \<Rightarrow>
          (case fetch_mofs_steps L W a results of
             (ev, r) \<Rightarrow> (FetchCall (fetch_call a) # ev, Inr r))
      | Inl e \<Rightarrow>
          if is_Exception e
          then (case fetch_mofs_steps L W a [] of
                  (ev, r) \<Rightarrow>
                    ([FetchCall (fetch_call a), Log STDOUT ''Encounter some error or Find nothing!'']
                     @ ev, Inr r))
          else ([FetchCall (fetch_call a)], Inl e))"

text \<open>
  The test script's \<open>fetch_mofs\<close>: no \<open>try\<close> around the query, \<open>n_found\<close> is the number
  of results, the cleaned list is not cut.
\<close>

definition fetch_mofs_test :: "pylib \<Rightarrow> mofdb_world \<Rightarrow> fetch_mofs_args \<Rightarrow> MofFetchResult io" where
  "fetch_mofs_test L W a =
     (case fetch W (fetch_call a) of
        Inl e \<Rightarrow> ([FetchCall (fetch_call a)], Inl e)
      | Inr results \<Rightarrow>
          (let found = int (length results);
               out_dir = mof_output_dir L (now_mofdb W) a in
           case save_mofs L results out_dir (output_formats a) of
             (ev, cleaned) \<Rightarrow>
               ([FetchCall (fetch_call a), Mkdir out_dir] @ ev
                @ [WriteFile (Slash out_dir ''summary.json'')
                     (JsonDump (mof_manifest a found out_dir))],
                Inr \<lparr>output_dir = out_dir, cleaned_structures = cleaned, n_found = found,
                     code = 0, message = ''Success''\<rparr>)))"

section \<open>OPTIMADE adapter\<close>

subsection \<open>What \<open>Optimade_Server/server.py\<close> imports from its \<open>utils\<close> module\<close>

text \<open>
  The \<open>utils\<close> module of the OPTIMADE server is not among the sources. Its names are
  parameters of the model: the tables as values, the helpers as functions. A Python
  set of provider names is a list without duplicates. \<open>save_structures\<close> returns
  \<open>(files, warnings, providers_seen, cleaned_structures)\<close> or raises.
\<close>

record optimade_utils =
  normalize_cfr_in_filter :: "string \<Rightarrow> string"
  filter_to_tag :: "string \<Rightarrow> string"
  URLS_FROM_PROVIDERS :: "(string \<times> string list) list"
  DEFAULT_PROVIDERS :: "string list"
  DEFAULT_SPG_PROVIDERS :: "string list"
  DEFAULT_BG_PROVIDERS :: "string list"
  get_spg_filter_map :: "int \<Rightarrow> string list \<Rightarrow> (string \<times> string) list"
  get_bandgap_filter_map ::
    "real option \<Rightarrow> real option \<Rightarrow> string list \<Rightarrow> (string \<times> string) list"
  build_provider_filters :: "string \<Rightarrow> (string \<times> string) list \<Rightarrow> (string \<times> string) list"
  save_structures ::
    "json \<Rightarrow> path \<Rightarrow> int \<Rightarrow> bool
     \<Rightarrow> py_exn + (string list \<times> string list \<times> string list \<times> pydict list)"

text \<open>
  The world of the OPTIMADE adapter: \<open>OptimadeClient(...)\<close> followed by
  \<open>client.get(filter=...)\<close>, and the clock.
\<close>

record optimade_world =
  client_get :: "optimade_client \<Rightarrow> string \<Rightarrow> py_exn + json"
  now_optimade :: datetime

subsection \<open>\<open>Optimade_Server/server.py\<close>\<close>

definition BASE_OUTPUT_DIR_optimade :: path where
  "BASE_OUTPUT_DIR_optimade = Path ''materials_data''"

definition MAX_RETURNED_STRUCTS :: nat where
  "MAX_RETURNED_STRUCTS = 100"

record optimade_args =
  as_format :: string
  n_results_o :: int
  providers :: "string list option"

record filter_args = optimade_args +
  filter_o :: "string option"

record based_args = optimade_args +
  base_filter :: "string option"

record spg_args = based_args +
  spg_number :: int

record bandgap_args = based_args +
  min_bg :: "real option"
  max_bg :: "real option"

text \<open>\<open>set(providers) if providers else dflt\<close>.\<close>

definition used_set :: "string list option \<Rightarrow> string list \<Rightarrow> string list" where
  "used_set ps dflt = (if given ps then remdups (the ps) else dflt)"

text \<open>\<open>URLS_FROM_PROVIDERS.get(provider, [])\<close>.\<close>

definition urls_of :: "optimade_utils \<Rightarrow> string \<Rightarrow> string list" where
  "urls_of U p = (case map_of (URLS_FROM_PROVIDERS U) p of None \<Rightarrow> [] | Some us \<Rightarrow> us)"

definition empty_stub :: json where
  "empty_stub = JDict [(''structures'', JDict [])]"

definition str_dict :: "(string \<times> string) list \<Rightarrow> json" where
  "str_dict d = JDict (map (\<lambda>kv. (fst kv, JStr (snd kv))) d)"

text \<open>
  Tool 1: one raw filter, one aggregated query. The set of providers is printed in
  the first log line as Python prints it; the model prints the list.
\<close>

definition raw_filt :: "optimade_utils \<Rightarrow> filter_args \<Rightarrow> string" where
  "raw_filt U a = normalize_cfr_in_filter U (strip (or_empty (filter_o a)))"

definition raw_client :: "optimade_utils \<Rightarrow> filter_args \<Rightarrow> optimade_client" where
  "raw_client U a =
     (let used_providers = used_set (providers a) (DEFAULT_PROVIDERS U);
          used_urls = concat (map (urls_of U) used_providers)
      in \<lparr>base_urls = used_urls, max_results_per_provider = n_results_o a, http_timeout = 25\<rparr>)"

definition raw_out_folder :: "pylib \<Rightarrow> optimade_utils \<Rightarrow> datetime \<Rightarrow> filter_args \<Rightarrow> path" where
  "raw_out_folder L U t a =
     (let filt = raw_filt U a;
          tag = filter_to_tag U filt;
          ts = strftime t;
          short = take 8 (sha1_hexdigest L filt)
      in Slash BASE_OUTPUT_DIR_optimade (tag @ ''_'' @ ts @ ''_'' @ short))"

definition raw_manifest ::
  "optimade_utils \<Rightarrow> filter_args \<Rightarrow> string list \<times> string list \<times> string list \<times> pydict list
   \<Rightarrow> json" where
  "raw_manifest U a saved =
     (case saved of (files, warns, providers_seen, cleaned) \<Rightarrow>
        JDict [(''mode'', JStr ''raw_filter''),
               (''filter'', JStr (raw_filt U a)),
               (''providers_requested'',
                  str_list (sort (used_set (providers a) (DEFAULT_PROVIDERS U)))),
               (''providers_seen'', str_list providers_seen),
               (''files'', str_list files),
               (''warnings'', str_list warns),
               (''format'', JStr (as_format a)),
               (''n_results'', JInt (n_results_o a)),
               (''n_found'', JInt (int (length cleaned)))])"

definition fetch_structures_with_filter ::
  "pylib \<Rightarrow> optimade_utils \<Rightarrow> optimade_world \<Rightarrow> filter_args \<Rightarrow> FetchResult io" where
  "fetch_structures_with_filter L U W a =
     (if strip (or_empty (filter_o a)) = []
      then ([Log ERROR ''[raw] empty filter string''], Inr zero_result)
      else
        (let filt = raw_filt U a;
             used_providers = used_set (providers a) (DEFAULT_PROVIDERS U);
             client = raw_client U a;
             pre = [Log INFO (''[raw] providers='' @ py_str L (str_list used_providers)
                              @ '' urls='' @ dec (length (base_urls client))
                              @ '' filter='' @ filt),
                    ClientGet client filt]
         in case client_get W client filt of
              Inl e \<Rightarrow>
                if is_SystemExit_or_Exception e
                then (pre @ [Log ERROR (''[raw] fetch failed: '' @ exn_message e)], Inr zero_result)
                else (pre, Inl e)
            | Inr results \<Rightarrow>
                (let out_folder = raw_out_folder L U (now_optimade W) a;
                     is_cif = (as_format a = ''cif'');
                     call = SaveStructures results out_folder (n_results_o a) is_cif
                 in case save_structures U results out_folder (n_results_o a) is_cif of
                      Inl e \<Rightarrow> (pre @ [call], Inl e)
                    | Inr saved \<Rightarrow>
                        (pre @ [call,
                                WriteFile (Slash out_folder ''summary.json'')
                                  (JsonDump (raw_manifest U a saved))],
                         Inr \<lparr>output_dir = out_folder,
                              cleaned_structures =
                                take MAX_RETURNED_STRUCTS (snd (snd (snd saved))),
                              n_found =
                                int (length (take MAX_RETURNED_STRUCTS (snd (snd (snd saved)))))\<rparr>))))"

text \<open>
  Tools 2 and 3 share the shape of their bodies; \<open>lbl\<close> is the label of their log
  lines (\<open>spg\<close> or \<open>bandgap\<close>).

  \<open>_query_one\<close>: no query is sent for a provider without URLs.
\<close>

definition provider_client :: "optimade_utils \<Rightarrow> int \<Rightarrow> string \<Rightarrow> optimade_client" where
  "provider_client U n prov =
     \<lparr>base_urls = urls_of U prov, max_results_per_provider = n, http_timeout = 25\<rparr>"

definition query_one ::
  "optimade_utils \<Rightarrow> optimade_world \<Rightarrow> string \<Rightarrow> int \<Rightarrow> string \<times> string \<Rightarrow> json io" where
  "query_one U W lbl n pc =
     (let prov = fst pc; clause = snd pc;
          info = Log INFO (''['' @ lbl @ ''] '' @ prov @ '': '' @ clause);
          provider_urls = urls_of U prov in
      if provider_urls = []
      then ([info, Log WARNING (''['' @ lbl @ ''] No URLs found for provider '' @ prov)],
            Inr empty_stub)
      else
        (let client = provider_client U n prov in
         case client_get W client clause of
           Inr r \<Rightarrow> ([info, ClientGet client clause], Inr r)
         | Inl e \<Rightarrow>
             if is_SystemExit_or_Exception e
             then ([info, ClientGet client clause,
                    Log ERROR (''['' @ lbl @ ''] fetch failed for '' @ prov @ '': ''
                               @ exn_message e)],
                   Inr empty_stub)
             else ([info, ClientGet client clause], Inl e)))"

text \<open>
  \<open>asyncio.gather(*[...], return_exceptions=True)\<close>: one task for each item of
  \<open>filters\<close>; the model runs them in the order of the items. An exception a task
  raised stands in its place in \<open>results_list\<close>.
\<close>

definition gather ::
  "optimade_utils \<Rightarrow> optimade_world \<Rightarrow> string \<Rightarrow> int \<Rightarrow> (string \<times> string) list
   \<Rightarrow> event list \<times> (py_exn + json) list" where
  "gather U W lbl n filters =
     (concat (map (\<lambda>pc. fst (query_one U W lbl n pc)) filters),
      map (\<lambda>pc. snd (query_one U W lbl n pc)) filters)"

text \<open>The loop that turns exceptions into empty result dicts.\<close>

fun norm_result :: "string \<Rightarrow> py_exn + json \<Rightarrow> event list \<times> (py_exn + json)" where
  "norm_result lbl (Inr r) = ([], Inr r)"
| "norm_result lbl (Inl e) =
     (if is_Exception e
      then ([Log ERROR (''['' @ lbl @ ''] task returned exception: '' @ exn_message e)],
            Inr empty_stub)
      else ([], Inl e))"

definition normalise ::
  "string \<Rightarrow> (py_exn + json) list \<Rightarrow> event list \<times> (py_exn + json) list" where
  "normalise lbl results_list =
     (concat (map (\<lambda>r. fst (norm_result lbl r)) results_list),
      map (\<lambda>r. snd (norm_result lbl r)) results_list)"

text \<open>
  The loop that saves all results together. An exception object that is still in
  \<open>norm_results\<close> is not a result dict; the model ends the request with it.
\<close>

fun save_all ::
  "optimade_utils \<Rightarrow> path \<Rightarrow> int \<Rightarrow> bool \<Rightarrow> (py_exn + json) list
   \<Rightarrow> string list \<times> string list \<times> string list \<times> pydict list
   \<Rightarrow> (string list \<times> string list \<times> string list \<times> pydict list) io" where
  "save_all U out_folder n is_cif [] acc = ([], Inr acc)"
| "save_all U out_folder n is_cif (Inl e # rs) acc = ([], Inl e)"
| "save_all U out_folder n is_cif (Inr res # rs) (all_files, all_warnings, all_providers, all_cleaned) =
     (case save_structures U res out_folder n is_cif of
        Inl e \<Rightarrow> ([SaveStructures res out_folder n is_cif], Inl e)
      | Inr (files, warns, providers_seen, cleaned) \<Rightarrow>
          (case save_all U out_folder n is_cif rs
                  (all_files @ files, all_warnings @ warns, all_providers @ providers_seen,
                   all_cleaned @ cleaned) of
             (ev, r) \<Rightarrow> (SaveStructures res out_folder n is_cif # ev, r)))"

text \<open>
  The three steps the space-group and the band-gap tool run between the check of
  \<open>filters\<close> and the manifest: the fan-out, the normalising loop, the saving loop.
\<close>

definition fan_out ::
  "optimade_utils \<Rightarrow> optimade_world \<Rightarrow> string \<Rightarrow> int \<Rightarrow> bool \<Rightarrow> path \<Rightarrow> (string \<times> string) list
   \<Rightarrow> (string list \<times> string list \<times> string list \<times> pydict list) io" where
  "fan_out U W lbl n is_cif out_folder filters =
     (case gather U W lbl n filters of
        (ev1, results_list) \<Rightarrow>
          (case normalise lbl results_list of
             (ev2, norm_results) \<Rightarrow>
               (case save_all U out_folder n is_cif norm_results ([], [], [], []) of
                  (ev3, r) \<Rightarrow> (ev1 @ ev2 @ ev3, r))))"

text \<open>Tool 2: space group.\<close>

definition spg_manifest ::
  "spg_args \<Rightarrow> string \<Rightarrow> string list \<Rightarrow> (string \<times> string) list
   \<Rightarrow> string list \<times> string list \<times> string list \<times> pydict list \<Rightarrow> json" where
  "spg_manifest a base used filters acc =
     (case acc of (all_files, all_warnings, all_providers, all_cleaned) \<Rightarrow>
        JDict [(''mode'', JStr ''space_group''),
               (''base_filter'', JStr base),
               (''spg_number'', JInt (spg_number a)),
               (''providers_requested'', str_list (sort used)),
               (''providers_seen'', str_list all_providers),
               (''files'', str_list all_files),
               (''warnings'', str_list all_warnings),
               (''format'', JStr (as_format a)),
               (''n_results'', JInt (n_results_o a)),
               (''per_provider_filters'', str_dict filters),
               (''n_found'', JInt (int (length all_cleaned)))])"

definition spg_filters :: "optimade_utils \<Rightarrow> spg_args \<Rightarrow> (string \<times> string) list" where
  "spg_filters U a =
     (let base = normalize_cfr_in_filter U (strip (or_empty (base_filter a)));
          used = used_set (providers a) (DEFAULT_SPG_PROVIDERS U);
          spg_map = get_spg_filter_map U (spg_number a) used
      in build_provider_filters U base spg_map)"

definition spg_out_folder :: "pylib \<Rightarrow> optimade_utils \<Rightarrow> datetime \<Rightarrow> spg_args \<Rightarrow> path" where
  "spg_out_folder L U t a =
     (let base = normalize_cfr_in_filter U (strip (or_empty (base_filter a)));
          tag = filter_to_tag U (base @ '' AND spg='' @ str_int (spg_number a));
          ts = strftime t;
          short = take 8 (sha1_hexdigest L (base @ ''|spg='' @ str_int (spg_number a)))
      in Slash BASE_OUTPUT_DIR_optimade (tag @ ''_'' @ ts @ ''_'' @ short))"

definition fetch_structures_with_spg ::
  "pylib \<Rightarrow> optimade_utils \<Rightarrow> optimade_world \<Rightarrow> spg_args \<Rightarrow> FetchResult io" where
  "fetch_structures_with_spg L U W a =
     (let base = normalize_cfr_in_filter U (strip (or_empty (base_filter a)));
          used = used_set (providers a) (DEFAULT_SPG_PROVIDERS U);
          filters = spg_filters U a in
      if filters = []
      then ([Log WARNING ''[spg] no provider-specific space-group clause available''],
            Inr zero_result)
      else
        (let out_folder = spg_out_folder L U (now_optimade W) a in
         case fan_out U W ''spg'' (n_results_o a) (as_format a = ''cif'') out_folder filters of
           (ev, Inl e) \<Rightarrow> (ev, Inl e)
         | (ev, Inr acc) \<Rightarrow>
             (ev @ [WriteFile (Slash out_folder ''summary.json'')
                      (JsonDump (spg_manifest a base used filters acc))],
              Inr \<lparr>output_dir = out_folder,
                   cleaned_structures = take MAX_RETURNED_STRUCTS (snd (snd (snd acc))),
                   n_found = int (length (take MAX_RETURNED_STRUCTS (snd (snd (snd acc)))))\<rparr>)))"

text \<open>Tool 3: band gap.\<close>

definition bandgap_manifest ::
  "bandgap_args \<Rightarrow> string \<Rightarrow> string list \<Rightarrow> (string \<times> string) list
   \<Rightarrow> string list \<times> string list \<times> string list \<times> pydict list \<Rightarrow> json" where
  "bandgap_manifest a base used filters acc =
     (case acc of (all_files, all_warnings, all_providers, all_cleaned) \<Rightarrow>
        JDict [(''mode'', JStr ''band_gap''),
               (''base_filter'', JStr base),
               (''band_gap_min'', opt_float (min_bg a)),
               (''band_gap_max'', opt_float (max_bg a)),
               (''providers_requested'', str_list (sort used)),
               (''providers_seen'', str_list all_providers),
               (''files'', str_list all_files),
               (''warnings'', str_list all_warnings),
               (''format'', JStr (as_format a)),
               (''n_results'', JInt (n_results_o a)),
               (''per_provider_filters'', str_dict filters),
               (''n_found'', JInt (int (length all_cleaned)))])"

definition bandgap_filters :: "optimade_utils \<Rightarrow> bandgap_args \<Rightarrow> (string \<times> string) list" where
  "bandgap_filters U a =
     (let base = normalize_cfr_in_filter U (strip (or_empty (base_filter a)));
          used = used_set (providers a) (DEFAULT_BG_PROVIDERS U);
          bg_map = get_bandgap_filter_map U (min_bg a) (max_bg a) used
      in build_provider_filters U base bg_map)"

definition bandgap_out_folder ::
  "pylib \<Rightarrow> optimade_utils \<Rightarrow> datetime \<Rightarrow> bandgap_args \<Rightarrow> path" where
  "bandgap_out_folder L U t a =
     (let base = normalize_cfr_in_filter U (strip (or_empty (base_filter a)));
          lo = py_str L (opt_float (min_bg a));
          hi = py_str L (opt_float (max_bg a));
          tag = filter_to_tag U (base @ '' AND bandgap['' @ lo @ '','' @ hi @ '']'');
          ts = strftime t;
          short = take 8 (sha1_hexdigest L (base @ ''|bg='' @ lo @ '':'' @ hi))
      in Slash BASE_OUTPUT_DIR_optimade (tag @ ''_'' @ ts @ ''_'' @ short))"

definition fetch_structures_with_bandgap ::
  "pylib \<Rightarrow> optimade_utils \<Rightarrow> optimade_world \<Rightarrow> bandgap_args \<Rightarrow> FetchResult io" where
  "fetch_structures_with_bandgap L U W a =
     (let base = normalize_cfr_in_filter U (strip (or_empty (base_filter a)));
          used = used_set (providers a) (DEFAULT_BG_PROVIDERS U);
          filters = bandgap_filters U a in
      if filters = []
      then ([Log WARNING ''[bandgap] no provider-specific band-gap clause available''],
            Inr zero_result)
      else
        (let out_folder = bandgap_out_folder L U (now_optimade W) a in
         case fan_out U W ''bandgap'' (n_results_o a) (as_format a = ''cif'') out_folder filters of
           (ev, Inl e) \<Rightarrow> (ev, Inl e)
         | (ev, Inr acc) \<Rightarrow>
             (ev @ [WriteFile (Slash out_folder ''summary.json'')
                      (JsonDump (bandgap_manifest a base used filters acc))],
              Inr \<lparr>output_dir = out_folder,
                   cleaned_structures = take MAX_RETURNED_STRUCTS (snd (snd (snd acc))),
                   n_found = int (length (take MAX_RETURNED_STRUCTS (snd (snd (snd acc)))))\<rparr>)))"

section \<open>Reading a trace of events\<close>

fun fetch_call_of :: "event \<Rightarrow> fetch_kwargs list" where
  "fetch_call_of (FetchCall k) = [k]"
| "fetch_call_of e = []"

definition fetch_calls :: "event list \<Rightarrow> fetch_kwargs list" where
  "fetch_calls ev = concat (map fetch_call_of ev)"

fun http_post_of :: "event \<Rightarrow> http_request list" where
  "http_post_of (HttpPost r) = [r]"
| "http_post_of e = []"

definition http_posts :: "event list \<Rightarrow> http_request list" where
  "http_posts ev = concat (map http_post_of ev)"

fun client_get_of :: "event \<Rightarrow> (optimade_client \<times> string) list" where
  "client_get_of (ClientGet c f) = [(c, f)]"
| "client_get_of e = []"

definition client_gets :: "event list \<Rightarrow> (optimade_client \<times> string) list" where
  "client_gets ev = concat (map client_get_of ev)"

fun save_call_of :: "event \<Rightarrow> json list" where
  "save_call_of (SaveStructures res p n c) = [res]"
| "save_call_of e = []"

definition save_calls :: "event list \<Rightarrow> json list" where
  "save_calls ev = concat (map save_call_of ev)"

section \<open>Sample inputs\<close>

text \<open>
  A library, a clock, and for each adapter a world, a failing world and arguments, at
  which the theorems below are evaluated. The sample library dumps JSON without
  floats and escapes, and knows the SHA-1 digests of the strings the samples hash
  (the digest of the empty string stands for every other).
\<close>

definition sample_mof_args :: fetch_mofs_args where
  "sample_mof_args =
     \<lparr>mofid = None, mofkey = None, vf_min = None, vf_max = None, lcd_min = None, lcd_max = None,
      pld_min = None, pld_max = None, sa_m2g_min = None, sa_m2g_max = None,
      sa_m2cm3_min = None, sa_m2cm3_max = None, name = Some ''tobmof-27'',
      database = Some ''Tobacco'', n_results = 3, output_formats = [''json'', ''cif'']\<rparr>"

fun sample_dumps :: "json \<Rightarrow> string" where
  "sample_dumps JNull = ''null''"
| "sample_dumps (JBool b) = (if b then ''true'' else ''false'')"
| "sample_dumps (JInt i) = str_int i"
| "sample_dumps (JFloat x) = ''0.0''"
| "sample_dumps (JStr s) = [CHR 0x22] @ s @ [CHR 0x22]"
| "sample_dumps (JList xs) = ''['' @ join '', '' (map sample_dumps xs) @ '']''"
| "sample_dumps (JDict d) =
     ''{'' @ join '', '' (sort (map (\<lambda>kv. [CHR 0x22] @ fst kv @ [CHR 0x22] @ '': ''
                                        @ sample_dumps (snd kv)) d)) @ ''}''"

definition sample_lib :: pylib where
  "sample_lib =
     \<lparr>sha1_hexdigest =
        (\<lambda>s. if s = ''SiO2|n_results=2|filters={}''
                then ''d1abd0c1a5861aac53b3eb751792e6e698f12d0c''
              else if s = ''nelements=3''
                then ''da7e3b7182f2a3de9846dd23d4f64810840dd85c''
              else if s = ''|spg=225''
                then ''49ea7f89f6fa926975c8bd8b8e62fe89803b9660''
              else if s = ''elements HAS ALL Al|bg=0.5:None''
                then ''474d38efc72bf5a6740cc7735a8a8e6d72d9252b''
              else if s = sample_dumps (mof_filters_dict sample_mof_args)
                then ''fd6949e4e895d5294da39ca7e100d02393856b73''
              else ''da39a3ee5e6b4b0d3255bfef95601890afd80709''),
      json_dumps_sorted = sample_dumps,
      json_loads = (\<lambda>s. if s = ''{}'' then Some (JDict []) else None),
      str_other = (\<lambda>v. if v = JFloat (1 / 2) then ''0.5'' else ''[]'')\<rparr>"

definition sample_time :: datetime where
  "sample_time = \<lparr>year = 2024, month = 3, day = 7, hour = 9, minute = 5, second = 0\<rparr>"

subsection \<open>Bohrium\<close>

definition sample_items :: "pydict list" where
  "sample_items =
     [[(''id'', JInt 101), (''formula'', JStr ''SiO2''),
       (''cif_file'', JStr ''https://example.org/101.cif''), (''come_from'', JStr ''mp''),
       (''material_id'', JStr ''mp-101'')],
      [(''id'', JInt 102), (''formula'', JStr ''SiO2'')]]"

definition sample_bohrium_world :: bohrium_world where
  "sample_bohrium_world =
     \<lparr>http_post = (\<lambda>r. Inr (JDict [(''code'', JInt 0),
                                     (''data'', JDict [(''data'', JList (map JDict sample_items))])])),
      http_get = (\<lambda>u t. if u = JStr ''https://example.org/101.cif'' then Inr ''data_101''
                         else Inl (Exception ''404'')),
      now_bohrium = sample_time\<rparr>"

definition failing_bohrium_world :: bohrium_world where
  "failing_bohrium_world =
     \<lparr>http_post = (\<lambda>r. Inl (Exception ''ConnectionError'')),
      http_get = (\<lambda>u t. Inl (Exception ''ConnectionError'')),
      now_bohrium = sample_time\<rparr>"


definition sample_bohrium_args :: bohrium_args where
  "sample_bohrium_args =
     \<lparr>formula = Some ''SiO2'', elements = None, space_symbol = None, atom_count_range = None,
      predicted_formation_energy_range = None, band_gap_range = None,
      match_mode = 1, n_results_b = 2, output_formats_b = [''json'', ''cif'']\<rparr>"

subsection \<open>MOFdb\<close>

definition sample_mofs :: "pydict list" where
  "sample_mofs =
     [[(''id'', JInt 7), (''name'', JStr ''tobmof-27''), (''database'', JStr ''Tobacco''),
       (''cif'', JStr ''data_tobmof-27''), (''json_repr'', JStr ''{}''),
       (''isotherms'', JList []), (''heats'', JList []), (''void_fraction'', JFloat (1 / 2))],
      [(''id'', JInt 8), (''name'', JStr ''tobmof 28''), (''database'', JStr ''Tobacco''),
       (''cif'', JNull)]]"

definition sample_mofdb_world :: mofdb_world where
  "sample_mofdb_world = \<lparr>fetch = (\<lambda>k. Inr sample_mofs), now_mofdb = sample_time\<rparr>"

definition crowded_mofdb_world :: mofdb_world where
  "crowded_mofdb_world =
     \<lparr>fetch = (\<lambda>k. Inr (replicate 35 [(''id'', JInt 1), (''cif'', JStr ''data_1'')])),
      now_mofdb = sample_time\<rparr>"

definition failing_mofdb_world :: mofdb_world where
  "failing_mofdb_world =
     \<lparr>fetch = (\<lambda>k. Inl (Exception ''generator raised StopIteration'')),
      now_mofdb = sample_time\<rparr>"

subsection \<open>OPTIMADE\<close>

text \<open>
  A stand-in for the \<open>utils\<close> module. The three default provider sets are the
  lists that the instruction text of \<open>server.py\<close> gives for the raw, the space-group
  and the band-gap tool; a provider has a space-group (band-gap) clause when it is in
  the space-group (band-gap) list, and the text of the clause is schematic. Two
  providers have a URL, and \<open>save_structures\<close> returns the structures of the result
  as the cleaned list.
\<close>

definition sample_raw_providers :: "string list" where
  "sample_raw_providers =
     [''alexandria'', ''cmr'', ''cod'', ''mcloud'', ''mcloudarchive'', ''mp'', ''mpdd'', ''mpds'',
      ''nmd'', ''odbx'', ''omdb'', ''oqmd'', ''tcod'', ''twodmatpedia'']"

definition sample_spg_providers :: "string list" where
  "sample_spg_providers = [''alexandria'', ''cod'', ''mpdd'', ''nmd'', ''odbx'', ''oqmd'', ''tcod'']"

definition sample_bg_providers :: "string list" where
  "sample_bg_providers = [''alexandria'', ''odbx'', ''oqmd'', ''mcloudarchive'', ''twodmatpedia'']"

definition sample_clause_map ::
  "string list \<Rightarrow> string \<Rightarrow> string list \<Rightarrow> (string \<times> string) list" where
  "sample_clause_map having clause used =
     map (\<lambda>p. (p, ''_'' @ p @ ''_'' @ clause)) (filter (\<lambda>p. p \<in> set having) used)"

fun sample_structures :: "json \<Rightarrow> pydict list" where
  "sample_structures (JDict [(k, JList xs)]) = map the_dict xs"
| "sample_structures v = []"

definition sample_utils :: optimade_utils where
  "sample_utils =
     \<lparr>normalize_cfr_in_filter = (\<lambda>s. s),
      filter_to_tag = (\<lambda>s. take 30 (map (\<lambda>c. if safe_char c then c else CHR ''_'') s)),
      URLS_FROM_PROVIDERS =
        [(''oqmd'', [''https://oqmd.org/optimade'']),
         (''mp'', [''https://optimade.materialsproject.org''])],
      DEFAULT_PROVIDERS = sample_raw_providers,
      DEFAULT_SPG_PROVIDERS = sample_spg_providers,
      DEFAULT_BG_PROVIDERS = sample_bg_providers,
      get_spg_filter_map =
        (\<lambda>n used. sample_clause_map sample_spg_providers (''spacegroup='' @ str_int n) used),
      get_bandgap_filter_map =
        (\<lambda>lo hi used. sample_clause_map sample_bg_providers ''band_gap>0'' used),
      build_provider_filters =
        (\<lambda>base m. map (\<lambda>pc. (fst pc, if base = [] then snd pc
                                        else ''('' @ base @ '') AND ('' @ snd pc @ '')'')) m),
      save_structures = (\<lambda>res out_folder n is_cif. Inr ([], [], [], sample_structures res))\<rparr>"

definition sample_optimade_world :: optimade_world where
  "sample_optimade_world =
     \<lparr>client_get =
        (\<lambda>c f. if ''https://oqmd.org/optimade'' \<in> set (base_urls c)
                then Inr (JDict [(''structures'', JList [JDict [(''id'', JStr ''oqmd-1'')]])])
                else Inl (SystemExit ''1'')),
      now_optimade = sample_time\<rparr>"

definition failing_optimade_world :: optimade_world where
  "failing_optimade_world =
     \<lparr>client_get = (\<lambda>c f. Inl (SystemExit ''1'')), now_optimade = sample_time\<rparr>"


definition sample_spg_args :: spg_args where
  "sample_spg_args =
     \<lparr>as_format = ''cif'', n_results_o = 3, providers = Some [''oqmd'', ''tcod'', ''mp''],
      base_filter = None, spg_number = 225\<rparr>"

definition sample_bandgap_args :: bandgap_args where
  "sample_bandgap_args =
     \<lparr>as_format = ''json'', n_results_o = 2, providers = Some [''mp''],
      base_filter = Some ''elements HAS ALL Al'', min_bg = Some (1 / 2), max_bg = None\<rparr>"

section \<open>Properties\<close>

declare dec.simps [simp del]

subsection \<open>The cleaned records\<close>

lemma fold_dict_pop: "fold dict_pop ks d = filter (\<lambda>kv. fst kv \<notin> set ks) d"
  by (induction ks arbitrary: d) (auto simp: dict_pop_def intro: filter_cong)

lemma map_of_filter_keys: "map_of (filter (\<lambda>kv. fst kv \<notin> K) d) = map_of d |` (- K)"
  by (induction d) (auto simp: restrict_map_def fun_eq_iff)

lemma save_loop_bohrium_cleaned:
  "save_loop_bohrium L W out_dir formats i items acc = (ev, Inr cleaned)
   \<Longrightarrow> cleaned = acc @ map clean_bohrium items"
proof (induction items arbitrary: i acc ev)
  case Nil
  then show ?case by simp
next
  case (Cons s items)
  from Cons.prems obtain ev' where
    "save_loop_bohrium L W out_dir formats (Suc i) items (acc @ [clean_bohrium s]) = (ev', Inr cleaned)"
    by (auto split: prod.splits sum.splits)
  from Cons.IH [OF this] show ?case by simp
qed

lemma save_loop_mofs_cleaned:
  "snd (save_loop_mofs L out_dir formats i items acc) = acc @ map clean_mof items"
proof (induction items arbitrary: i acc)
  case Nil
  then show ?case by simp
next
  case (Cons m items)
  from Cons.IH [of "Suc i" "acc @ [clean_mof m]"] show ?case
    by (auto split: prod.splits)
qed

lemma save_one_bohrium_returns:
  assumes "\<forall>u e. http_get W u 30 = Inl e \<longrightarrow> is_Exception e"
  shows "\<exists>ev. save_one_bohrium L W out_dir formats i s = (ev, Inr ())"
  using assms
  by (auto simp: save_one_bohrium_def save_cif_bohrium_def Let_def
           split: option.splits sum.splits)

lemma save_loop_bohrium_returns:
  assumes "\<forall>u e. http_get W u 30 = Inl e \<longrightarrow> is_Exception e"
  shows "\<exists>ev cleaned. save_loop_bohrium L W out_dir formats i items acc = (ev, Inr cleaned)"
proof (induction items arbitrary: i acc)
  case Nil
  then show ?case by simp
next
  case (Cons s items)
  from save_one_bohrium_returns [OF assms] obtain ev0 where
    one: "save_one_bohrium L W out_dir formats i s = (ev0, Inr ())"
    by blast
  from Cons.IH [of "Suc i" "acc @ [clean_bohrium s]"] one show ?case
    by auto
qed

lemma clean_bohrium_eq:
  "clean_bohrium d = filter (\<lambda>kv. fst kv \<notin> {''cif_file'', ''come_from'', ''material_id''}) d"
  by (simp only: clean_bohrium_def fold_dict_pop) (simp add: CRYSTAL_DROP_ATTRS_def)

lemma map_of_clean_bohrium:
  "map_of (clean_bohrium d) = map_of d |` (- {''cif_file'', ''come_from'', ''material_id''})"
  by (simp only: clean_bohrium_eq map_of_filter_keys)

lemma clean_mof_eq:
  "clean_mof d = filter (\<lambda>kv. fst kv \<notin> {''cif'', ''json_repr'', ''isotherms'', ''heats'',
                                       ''isotherms_filtered'', ''heats_filtered''}) d"
  by (simp only: clean_mof_def fold_dict_pop) (simp add: MOFDB_DROP_ATTRS_def)

lemma map_of_clean_mof:
  "map_of (clean_mof d) = map_of d |` (- {''cif'', ''json_repr'', ''isotherms'', ''heats'',
                                          ''isotherms_filtered'', ''heats_filtered''})"
  by (simp only: clean_mof_eq map_of_filter_keys)

lemma save_mofs_cleaned: "snd (save_mofs L mofs out_dir formats) = map clean_mof mofs"
  using save_loop_mofs_cleaned [of L out_dir formats 0 mofs "[]"]
  by (auto simp: save_mofs_def split: prod.splits)

text \<open>
  Claim C3. Whenever \<open>save_structures_bohriumcrystal\<close> returns, the cleaned list has
  the length of the input and its \<open>i\<close>-th element is the \<open>i\<close>-th input record without
  the keys \<open>cif_file\<close>, \<open>come_from\<close> and \<open>material_id\<close>: the other entries are kept, in
  their order and with their values. It returns whenever no CIF download raises an
  exception outside \<open>Exception\<close>. \<open>save_mofs\<close> always returns, and does the same with
  \<open>cif\<close>, \<open>json_repr\<close>, \<open>isotherms\<close>, \<open>heats\<close>, \<open>isotherms_filtered\<close> and
  \<open>heats_filtered\<close>.
\<close>

theorem cleaned_is_input_without_drop_attrs:
  "(\<forall>cleaned. snd (save_structures_bohriumcrystal L W items out_dir formats) = Inr cleaned \<longrightarrow>
       length cleaned = length items \<and>
       (\<forall>i<length items.
          cleaned ! i = filter (\<lambda>kv. fst kv \<notin> {''cif_file'', ''come_from'', ''material_id''})
                          (items ! i) \<and>
          map_of (cleaned ! i)
            = map_of (items ! i) |` (- {''cif_file'', ''come_from'', ''material_id''})))
   \<and> ((\<forall>u e. http_get W u 30 = Inl e \<longrightarrow> is_Exception e) \<longrightarrow>
        (\<exists>cleaned. snd (save_structures_bohriumcrystal L W items out_dir formats) = Inr cleaned))
   \<and> length (snd (save_mofs L mofs out_dir formats)) = length mofs
   \<and> (\<forall>i<length mofs.
          snd (save_mofs L mofs out_dir formats) ! i
            = filter (\<lambda>kv. fst kv \<notin> {''cif'', ''json_repr'', ''isotherms'', ''heats'',
                                      ''isotherms_filtered'', ''heats_filtered''}) (mofs ! i) \<and>
          map_of (snd (save_mofs L mofs out_dir formats) ! i)
            = map_of (mofs ! i) |` (- {''cif'', ''json_repr'', ''isotherms'', ''heats'',
                                       ''isotherms_filtered'', ''heats_filtered''}))"
proof -
  have bohrium: "\<forall>cleaned.
       snd (save_structures_bohriumcrystal L W items out_dir formats) = Inr cleaned \<longrightarrow>
       length cleaned = length items \<and>
       (\<forall>i<length items.
          cleaned ! i = filter (\<lambda>kv. fst kv \<notin> {''cif_file'', ''come_from'', ''material_id''})
                          (items ! i) \<and>
          map_of (cleaned ! i)
            = map_of (items ! i) |` (- {''cif_file'', ''come_from'', ''material_id''}))"
  proof (intro allI impI)
    fix cleaned
    assume "snd (save_structures_bohriumcrystal L W items out_dir formats) = Inr cleaned"
    then obtain ev where "save_loop_bohrium L W out_dir formats 0 items [] = (ev, Inr cleaned)"
      by (cases "save_loop_bohrium L W out_dir formats 0 items []")
         (simp add: save_structures_bohriumcrystal_def)
    from save_loop_bohrium_cleaned [OF this] have c: "cleaned = map clean_bohrium items"
      by simp
    have each: "\<forall>i<length items.
          cleaned ! i = filter (\<lambda>kv. fst kv \<notin> {''cif_file'', ''come_from'', ''material_id''})
                          (items ! i) \<and>
          map_of (cleaned ! i)
            = map_of (items ! i) |` (- {''cif_file'', ''come_from'', ''material_id''})"
    proof (intro allI impI)
      fix i
      assume "i < length items"
      then have e: "cleaned ! i = clean_bohrium (items ! i)"
        by (simp add: c)
      show "cleaned ! i = filter (\<lambda>kv. fst kv \<notin> {''cif_file'', ''come_from'', ''material_id''})
                          (items ! i) \<and>
          map_of (cleaned ! i)
            = map_of (items ! i) |` (- {''cif_file'', ''come_from'', ''material_id''})"
        unfolding e by (rule conjI [OF clean_bohrium_eq map_of_clean_bohrium])
    qed
    have same_length: "length cleaned = length items"
      by (simp add: c)
    show "length cleaned = length items \<and>
       (\<forall>i<length items.
          cleaned ! i = filter (\<lambda>kv. fst kv \<notin> {''cif_file'', ''come_from'', ''material_id''})
                          (items ! i) \<and>
          map_of (cleaned ! i)
            = map_of (items ! i) |` (- {''cif_file'', ''come_from'', ''material_id''}))"
      by (rule conjI [OF same_length each])
  qed
  have returns: "(\<forall>u e. http_get W u 30 = Inl e \<longrightarrow> is_Exception e) \<longrightarrow>
        (\<exists>cleaned. snd (save_structures_bohriumcrystal L W items out_dir formats) = Inr cleaned)"
  proof
    assume "\<forall>u e. http_get W u 30 = Inl e \<longrightarrow> is_Exception e"
    from save_loop_bohrium_returns [OF this, of L out_dir formats 0 items "[]"]
    show "\<exists>cleaned. snd (save_structures_bohriumcrystal L W items out_dir formats) = Inr cleaned"
      by (auto simp: save_structures_bohriumcrystal_def)
  qed
  have len: "length (snd (save_mofs L mofs out_dir formats)) = length mofs"
    by (simp add: save_mofs_cleaned)
  have mofs: "\<forall>i<length mofs.
          snd (save_mofs L mofs out_dir formats) ! i
            = filter (\<lambda>kv. fst kv \<notin> {''cif'', ''json_repr'', ''isotherms'', ''heats'',
                                      ''isotherms_filtered'', ''heats_filtered''}) (mofs ! i) \<and>
          map_of (snd (save_mofs L mofs out_dir formats) ! i)
            = map_of (mofs ! i) |` (- {''cif'', ''json_repr'', ''isotherms'', ''heats'',
                                       ''isotherms_filtered'', ''heats_filtered''})"
  proof (intro allI impI)
    fix i
    assume "i < length mofs"
    then have e: "snd (save_mofs L mofs out_dir formats) ! i = clean_mof (mofs ! i)"
      by (simp add: save_mofs_cleaned)
    show "snd (save_mofs L mofs out_dir formats) ! i
            = filter (\<lambda>kv. fst kv \<notin> {''cif'', ''json_repr'', ''isotherms'', ''heats'',
                                      ''isotherms_filtered'', ''heats_filtered''}) (mofs ! i) \<and>
          map_of (snd (save_mofs L mofs out_dir formats) ! i)
            = map_of (mofs ! i) |` (- {''cif'', ''json_repr'', ''isotherms'', ''heats'',
                                       ''isotherms_filtered'', ''heats_filtered''})"
      unfolding e by (rule conjI [OF clean_mof_eq map_of_clean_mof])
  qed
  show ?thesis
    by (rule conjI [OF bohrium conjI [OF returns conjI [OF len mofs]]])
qed

theorem cleaned_is_input_without_drop_attrs_witness:
  "snd (save_structures_bohriumcrystal sample_lib sample_bohrium_world sample_items
          (Path ''out'') [''json'', ''cif''])
     = Inr [[(''id'', JInt 101), (''formula'', JStr ''SiO2'')],
            [(''id'', JInt 102), (''formula'', JStr ''SiO2'')]]
   \<and> map_of ([[(''id'', JInt 101), (''formula'', JStr ''SiO2'')],
              [(''id'', JInt 102), (''formula'', JStr ''SiO2'')]] ! 0)
       = map_of (sample_items ! 0) |` (- {''cif_file'', ''come_from'', ''material_id''})
   \<and> length (snd (save_mofs sample_lib sample_mofs (Path ''out'') [''json'', ''cif'']))
       = length sample_mofs
   \<and> snd (save_mofs sample_lib sample_mofs (Path ''out'') [''json'', ''cif'']) ! 0
       = [(''id'', JInt 7), (''name'', JStr ''tobmof-27''), (''database'', JStr ''Tobacco''),
          (''void_fraction'', JFloat (1 / 2))]
   \<and> map_of (snd (save_mofs sample_lib sample_mofs (Path ''out'') [''json'', ''cif'']) ! 1)
       = map_of (sample_mofs ! 1) |` (- {''cif'', ''json_repr'', ''isotherms'', ''heats'',
                                         ''isotherms_filtered'', ''heats_filtered''})"
proof -
  note T = cleaned_is_input_without_drop_attrs
             [of sample_lib sample_bohrium_world sample_items "Path ''out''" "[''json'', ''cif'']"
                 sample_mofs]
  have run: "snd (save_structures_bohriumcrystal sample_lib sample_bohrium_world sample_items
                    (Path ''out'') [''json'', ''cif''])
             = Inr [[(''id'', JInt 101), (''formula'', JStr ''SiO2'')],
                    [(''id'', JInt 102), (''formula'', JStr ''SiO2'')]]"
    by code_simp
  have n: "0 < length sample_items" "0 < length sample_mofs" "1 < length sample_mofs"
    by (simp_all add: sample_items_def sample_mofs_def)
  have first: "filter (\<lambda>kv. fst kv \<notin> {''cif'', ''json_repr'', ''isotherms'', ''heats'',
                                       ''isotherms_filtered'', ''heats_filtered''})
                 (sample_mofs ! 0)
               = [(''id'', JInt 7), (''name'', JStr ''tobmof-27''), (''database'', JStr ''Tobacco''),
                  (''void_fraction'', JFloat (1 / 2))]"
    by (simp add: sample_mofs_def)
  note A = T [THEN conjunct1, rule_format, OF run, THEN conjunct2, rule_format, OF n(1),
              THEN conjunct2]
  note B = T [THEN conjunct2, THEN conjunct2, THEN conjunct1]
  note M = T [THEN conjunct2, THEN conjunct2, THEN conjunct2, rule_format]
  note M0 = trans [OF M [OF n(2), THEN conjunct1] first]
  note M1 = M [OF n(3), THEN conjunct2]
  show ?thesis
    by (rule conjI [OF run conjI [OF A conjI [OF B conjI [OF M0 M1]]]])
qed

subsection \<open>The files written for each record\<close>

















subsection \<open>The MOFdb tool: the query and the return\<close>

lemma fetch_calls_append: "fetch_calls (xs @ ys) = fetch_calls xs @ fetch_calls ys"
  by (simp add: fetch_calls_def)

lemma fetch_calls_Cons: "fetch_calls (e # es) = fetch_call_of e @ fetch_calls es"
  by (simp add: fetch_calls_def)

lemma fetch_calls_Nil: "fetch_calls [] = []"
  by (simp add: fetch_calls_def)

lemma fetch_calls_save_one_mof: "fetch_calls (save_one_mof L out_dir formats i m) = []"
  by (auto simp: save_one_mof_def save_json_mof_def save_cif_mof_def Let_def fetch_calls_def
           split: json.splits)

lemma fetch_calls_save_loop_mofs:
  "fetch_calls (fst (save_loop_mofs L out_dir formats i items acc)) = []"
proof (induction items arbitrary: i acc)
  case Nil
  then show ?case by (simp add: fetch_calls_Nil)
next
  case (Cons m items)
  from Cons.IH [of "Suc i" "acc @ [clean_mof m]"] show ?case
    by (auto simp: fetch_calls_append fetch_calls_save_one_mof split: prod.splits)
qed

lemma fetch_calls_save_mofs: "fetch_calls (fst (save_mofs L items out_dir formats)) = []"
  using fetch_calls_save_loop_mofs [of L out_dir formats 0 items "[]"]
  by (auto simp: save_mofs_def fetch_calls_Cons split: prod.splits)

lemma fetch_mofs_steps_eq:
  "fetch_mofs_steps L W a results =
     ([Mkdir (mof_output_dir L (now_mofdb W) a)]
      @ fst (save_mofs L results (mof_output_dir L (now_mofdb W) a) (output_formats a))
      @ [WriteFile (Slash (mof_output_dir L (now_mofdb W) a) ''summary.json'')
           (JsonDump (mof_manifest a
              (int (length (take MAX_RETURNED_STRUCTS_mofdb (map clean_mof results))))
              (mof_output_dir L (now_mofdb W) a)))],
      \<lparr>output_dir = mof_output_dir L (now_mofdb W) a,
       cleaned_structures = take MAX_RETURNED_STRUCTS_mofdb (map clean_mof results),
       n_found = int (length (take MAX_RETURNED_STRUCTS_mofdb (map clean_mof results))),
       code = 0, message = ''Success''\<rparr>)"
  using save_mofs_cleaned [of L results "mof_output_dir L (now_mofdb W) a" "output_formats a"]
  by (auto simp: fetch_mofs_steps_def Let_def split: prod.splits)

lemma fetch_calls_steps: "fetch_calls (fst (fetch_mofs_steps L W a results)) = []"
  by (simp add: fetch_mofs_steps_eq fetch_calls_append fetch_calls_Cons fetch_calls_Nil
        fetch_calls_save_mofs)

text \<open>
  Claim C5. In every run of \<open>fetch_mofs\<close>, of the server and of the test script, the
  client \<open>fetch\<close> is called exactly once, and the keyword arguments of that call are the
  fourteen filters of the tool, each under its own name and with the value the tool
  received, and \<open>n_results\<close> as \<open>limit\<close>.
\<close>

theorem fetch_mofs_forwards_filters:
  "fetch_calls (fst (fetch_mofs L W a)) = [fetch_call a]
   \<and> fetch_calls (fst (fetch_mofs_test L W a)) = [fetch_call a]
   \<and> mofid (fetch_call a) = mofid a \<and> mofkey (fetch_call a) = mofkey a
   \<and> vf_min (fetch_call a) = vf_min a \<and> vf_max (fetch_call a) = vf_max a
   \<and> lcd_min (fetch_call a) = lcd_min a \<and> lcd_max (fetch_call a) = lcd_max a
   \<and> pld_min (fetch_call a) = pld_min a \<and> pld_max (fetch_call a) = pld_max a
   \<and> sa_m2g_min (fetch_call a) = sa_m2g_min a \<and> sa_m2g_max (fetch_call a) = sa_m2g_max a
   \<and> sa_m2cm3_min (fetch_call a) = sa_m2cm3_min a
   \<and> sa_m2cm3_max (fetch_call a) = sa_m2cm3_max a
   \<and> name (fetch_call a) = name a \<and> database (fetch_call a) = database a
   \<and> limit (fetch_call a) = n_results a"
proof -
  have server: "fetch_calls (fst (fetch_mofs L W a)) = [fetch_call a]"
  proof (cases "fetch W (fetch_call a)")
    case (Inl e)
    then show ?thesis
      using fetch_calls_steps [of L W a "[]"]
      by (auto simp: fetch_mofs_def fetch_calls_Cons fetch_calls_Nil split: prod.splits)
  next
    case (Inr results)
    then show ?thesis
      using fetch_calls_steps [of L W a results]
      by (auto simp: fetch_mofs_def fetch_calls_Cons split: prod.splits)
  qed
  have test: "fetch_calls (fst (fetch_mofs_test L W a)) = [fetch_call a]"
  proof (cases "fetch W (fetch_call a)")
    case (Inl e)
    then show ?thesis
      by (simp add: fetch_mofs_test_def fetch_calls_Cons fetch_calls_Nil)
  next
    case (Inr results)
    then show ?thesis
      using fetch_calls_save_mofs
              [of L results "mof_output_dir L (now_mofdb W) a" "output_formats a"]
      by (auto simp: fetch_mofs_test_def Let_def fetch_calls_Cons fetch_calls_append
            fetch_calls_Nil split: prod.splits)
  qed
  from server test show ?thesis
    by (simp add: fetch_call_def)
qed


theorem fetch_mofs_forwards_filters_witness:
  "fetch_calls (fst (fetch_mofs sample_lib sample_mofdb_world sample_mof_args))
     = [\<lparr>mofid = None, mofkey = None, vf_min = None, vf_max = None, lcd_min = None,
         lcd_max = None, pld_min = None, pld_max = None, sa_m2g_min = None, sa_m2g_max = None,
         sa_m2cm3_min = None, sa_m2cm3_max = None, name = Some ''tobmof-27'',
         database = Some ''Tobacco'', limit = 3\<rparr>]
   \<and> fetch_calls (fst (fetch_mofs_test sample_lib failing_mofdb_world sample_mof_args))
     = [\<lparr>mofid = None, mofkey = None, vf_min = None, vf_max = None, lcd_min = None,
         lcd_max = None, pld_min = None, pld_max = None, sa_m2g_min = None, sa_m2g_max = None,
         sa_m2cm3_min = None, sa_m2cm3_max = None, name = Some ''tobmof-27'',
         database = Some ''Tobacco'', limit = 3\<rparr>]"
proof -
  have k: "fetch_call sample_mof_args
           = \<lparr>mofid = None, mofkey = None, vf_min = None, vf_max = None, lcd_min = None,
              lcd_max = None, pld_min = None, pld_max = None, sa_m2g_min = None,
              sa_m2g_max = None, sa_m2cm3_min = None, sa_m2cm3_max = None,
              name = Some ''tobmof-27'', database = Some ''Tobacco'', limit = 3\<rparr>"
    by (simp add: fetch_call_def sample_mof_args_def)
  note S = fetch_mofs_forwards_filters [of sample_lib sample_mofdb_world sample_mof_args,
             THEN conjunct1, unfolded k]
  note T = fetch_mofs_forwards_filters [of sample_lib failing_mofdb_world sample_mof_args,
             THEN conjunct2, THEN conjunct1, unfolded k]
  show ?thesis
    by (rule conjI [OF S T])
qed


lemma fetch_mofs_result:
  assumes "snd (fetch_mofs L W a) = Inr r"
  shows "\<exists>results. r = snd (fetch_mofs_steps L W a results)"
proof (cases "fetch W (fetch_call a)")
  case (Inl e)
  with assms show ?thesis
    by (auto simp: fetch_mofs_def case_prod_beta split: if_splits)
next
  case (Inr results)
  with assms show ?thesis
    by (auto simp: fetch_mofs_def case_prod_beta)
qed




subsection \<open>The request header of the Bohrium tool, and the count of results\<close>

lemma http_posts_append: "http_posts (xs @ ys) = http_posts xs @ http_posts ys"
  by (simp add: http_posts_def)

lemma http_posts_Cons: "http_posts (e # es) = http_post_of e @ http_posts es"
  by (simp add: http_posts_def)

lemma http_posts_Nil: "http_posts [] = []"
  by (simp add: http_posts_def)

lemma http_posts_save_one_bohrium:
  "http_posts (fst (save_one_bohrium L W out_dir formats i s)) = []"
  by (auto simp: save_one_bohrium_def save_cif_bohrium_def save_json_bohrium_def Let_def
        http_posts_def split: option.splits sum.splits)

lemma http_posts_save_loop_bohrium:
  "http_posts (fst (save_loop_bohrium L W out_dir formats i items acc)) = []"
proof (induction items arbitrary: i acc)
  case Nil
  then show ?case by (simp add: http_posts_Nil)
next
  case (Cons s items)
  from Cons.IH [of "Suc i" "acc @ [clean_bohrium s]"]
       http_posts_save_one_bohrium [of L W out_dir formats i s]
  show ?case
    by (auto simp: http_posts_append split: prod.splits sum.splits)
qed

lemma http_posts_save_bohrium:
  "save_structures_bohriumcrystal L W items out_dir formats = (ev, r) \<Longrightarrow> http_posts ev = []"
  using http_posts_save_loop_bohrium [of L W out_dir formats 0 items "[]"]
  by (simp add: save_structures_bohriumcrystal_def)

lemma http_posts_fetch_bohrium:
  "http_posts (fst (fetch_bohrium_crystals L W a)) = [bohrium_request a]"
  by (auto simp: fetch_bohrium_crystals_def Let_def http_posts_Cons http_posts_Nil
        http_posts_append http_posts_save_bohrium split: sum.splits prod.splits)

text \<open>
  Claim C8. In every run of \<open>fetch_bohrium_crystals\<close> exactly one POST request is sent,
  and its headers are \<open>X-User-Id: 117756\<close> and \<open>Content-Type: application/json\<close>, whatever
  the arguments, the library and the world: the headers of any two runs are equal. (The
  downloads of CIF files are GET requests without headers of the adapter's own.)
\<close>

theorem bohrium_request_carries_fixed_user_id:
  "http_posts (fst (fetch_bohrium_crystals L W a)) = [bohrium_request a]
   \<and> headers (bohrium_request a)
       = [(''X-User-Id'', ''117756''), (''Content-Type'', ''application/json'')]
   \<and> map_of (headers (bohrium_request a)) ''X-User-Id'' = Some ''117756''
   \<and> map headers (http_posts (fst (fetch_bohrium_crystals L W a)))
       = map headers (http_posts (fst (fetch_bohrium_crystals L' W' a')))"
  by (simp add: http_posts_fetch_bohrium bohrium_request_def bohrium_headers_def x_user_id_def)

theorem bohrium_request_carries_fixed_user_id_witness:
  "map headers (http_posts (fst (fetch_bohrium_crystals sample_lib sample_bohrium_world
                                   sample_bohrium_args)))
     = [[(''X-User-Id'', ''117756''), (''Content-Type'', ''application/json'')]]
   \<and> map headers (http_posts (fst (fetch_bohrium_crystals sample_lib failing_bohrium_world
                                     (sample_bohrium_args\<lparr>formula := None,
                                        elements := Some [''Na'', ''Cl'']\<rparr>))))
     = [[(''X-User-Id'', ''117756''), (''Content-Type'', ''application/json'')]]"
proof -
  note A = bohrium_request_carries_fixed_user_id
             [of sample_lib sample_bohrium_world sample_bohrium_args]
  note B = bohrium_request_carries_fixed_user_id
             [of sample_lib failing_bohrium_world
                 "sample_bohrium_args\<lparr>formula := None, elements := Some [''Na'', ''Cl'']\<rparr>"]
  from A B show ?thesis
    by simp
qed

text \<open>
  Claim C9. Every result returned by \<open>fetch_structures_with_filter\<close>,
  \<open>fetch_structures_with_spg\<close>, \<open>fetch_structures_with_bandgap\<close> and the server's
  \<open>fetch_mofs\<close> has \<open>n_found\<close> equal to the length of its \<open>cleaned_structures\<close>, and that
  length is at most 100 for the OPTIMADE tools and at most 30 for \<open>fetch_mofs\<close>.
\<close>

theorem n_found_is_length_within_cap:
  "(\<forall>r. snd (fetch_structures_with_filter L U Wo a1) = Inr r \<longrightarrow>
        n_found r = int (length (cleaned_structures r)) \<and> length (cleaned_structures r) \<le> 100)
   \<and> (\<forall>r. snd (fetch_structures_with_spg L U Wo a2) = Inr r \<longrightarrow>
        n_found r = int (length (cleaned_structures r)) \<and> length (cleaned_structures r) \<le> 100)
   \<and> (\<forall>r. snd (fetch_structures_with_bandgap L U Wo a3) = Inr r \<longrightarrow>
        n_found r = int (length (cleaned_structures r)) \<and> length (cleaned_structures r) \<le> 100)
   \<and> (\<forall>r. snd (fetch_mofs L Wm a4) = Inr r \<longrightarrow>
        n_found r = int (length (cleaned_structures r)) \<and> length (cleaned_structures r) \<le> 30)"
  apply (intro conjI)
  subgoal
    by (auto simp: fetch_structures_with_filter_def Let_def zero_result_def
          MAX_RETURNED_STRUCTS_def split: sum.splits if_splits)
  subgoal
    by (auto simp: fetch_structures_with_spg_def Let_def zero_result_def
          MAX_RETURNED_STRUCTS_def split: sum.splits prod.splits if_splits)
  subgoal
    by (auto simp: fetch_structures_with_bandgap_def Let_def zero_result_def
          MAX_RETURNED_STRUCTS_def split: sum.splits prod.splits if_splits)
  subgoal
    using fetch_mofs_result [of L Wm a4]
    by (auto simp: fetch_mofs_steps_eq MAX_RETURNED_STRUCTS_mofdb_def)
  done


theorem n_found_is_length_within_cap_witness:
  "snd (fetch_mofs sample_lib crowded_mofdb_world (sample_mof_args\<lparr>output_formats := []\<rparr>))
     = Inr \<lparr>output_dir = Slash (Path ''materials_data_mofdb'')
                             ''tobmof-27_Tobacco_20240307_090500_fd6949e4'',
            cleaned_structures = replicate 30 [(''id'', JInt 1)], n_found = 30,
            code = 0, message = ''Success''\<rparr>
   \<and> length (cleaned_structures
        \<lparr>output_dir = Slash (Path ''materials_data_mofdb'')
                        ''tobmof-27_Tobacco_20240307_090500_fd6949e4'',
         cleaned_structures = replicate 30 [(''id'', JInt 1)], n_found = 30,
         code = 0, message = ''Success''\<rparr>) \<le> 30
   \<and> snd (fetch_structures_with_spg sample_lib sample_utils sample_optimade_world sample_spg_args)
     = Inr \<lparr>output_dir = Slash (Path ''materials_data'') ''_AND_spg_225_20240307_090500_49ea7f89'',
            cleaned_structures = [[(''id'', JStr ''oqmd-1'')]], n_found = 1\<rparr>
   \<and> n_found \<lparr>output_dir = Slash (Path ''materials_data'')
                              ''_AND_spg_225_20240307_090500_49ea7f89'',
               cleaned_structures = [[(''id'', JStr ''oqmd-1'')]], n_found = 1\<rparr>
     = int (length (cleaned_structures
          \<lparr>output_dir = Slash (Path ''materials_data'') ''_AND_spg_225_20240307_090500_49ea7f89'',
           cleaned_structures = [[(''id'', JStr ''oqmd-1'')]], n_found = 1\<rparr>))"
proof -
  have mof: "snd (fetch_mofs sample_lib crowded_mofdb_world
                    (sample_mof_args\<lparr>output_formats := []\<rparr>))
     = Inr \<lparr>output_dir = Slash (Path ''materials_data_mofdb'')
                             ''tobmof-27_Tobacco_20240307_090500_fd6949e4'',
            cleaned_structures = replicate 30 [(''id'', JInt 1)], n_found = 30,
            code = 0, message = ''Success''\<rparr>"
    by code_simp
  have spg: "snd (fetch_structures_with_spg sample_lib sample_utils sample_optimade_world
                    sample_spg_args)
     = Inr \<lparr>output_dir = Slash (Path ''materials_data'') ''_AND_spg_225_20240307_090500_49ea7f89'',
            cleaned_structures = [[(''id'', JStr ''oqmd-1'')]], n_found = 1\<rparr>"
    by code_simp
  note T = n_found_is_length_within_cap
             [of sample_lib sample_utils sample_optimade_world _ sample_spg_args _
                 crowded_mofdb_world "sample_mof_args\<lparr>output_formats := []\<rparr>"]
  note M = T [THEN conjunct2, THEN conjunct2, THEN conjunct2, rule_format, OF mof, THEN conjunct2]
  note S = T [THEN conjunct2, THEN conjunct1, rule_format, OF spg, THEN conjunct1]
  show ?thesis
    by (rule conjI [OF mof conjI [OF M conjI [OF spg S]]])
qed

subsection \<open>The output directory\<close>




lemma fetch_spg_output_dir:
  "snd (fetch_structures_with_spg L U W a) = Inr r \<Longrightarrow> output_dir r \<noteq> Path ''.'' \<Longrightarrow>
   output_dir r = spg_out_folder L U (now_optimade W) a"
  by (auto simp: fetch_structures_with_spg_def Let_def zero_result_def
        split: sum.splits prod.splits if_splits)

lemma fetch_bandgap_output_dir:
  "snd (fetch_structures_with_bandgap L U W a) = Inr r \<Longrightarrow> output_dir r \<noteq> Path ''.'' \<Longrightarrow>
   output_dir r = bandgap_out_folder L U (now_optimade W) a"
  by (auto simp: fetch_structures_with_bandgap_def Let_def zero_result_def
        split: sum.splits prod.splits if_splits)







subsection \<open>The failure paths\<close>











subsection \<open>The manifest\<close>













subsection \<open>The fan-out over the providers\<close>

lemma client_gets_append: "client_gets (xs @ ys) = client_gets xs @ client_gets ys"
  by (simp add: client_gets_def)

lemma save_calls_append: "save_calls (xs @ ys) = save_calls xs @ save_calls ys"
  by (simp add: save_calls_def)

lemma client_gets_query_one:
  "client_gets (fst (query_one U W lbl n pc))
   = (if urls_of U (fst pc) = [] then [] else [(provider_client U n (fst pc), snd pc)])"
  by (auto simp: query_one_def Let_def client_gets_def split: sum.splits)

lemma save_calls_query_one: "save_calls (fst (query_one U W lbl n pc)) = []"
  by (auto simp: query_one_def Let_def save_calls_def split: sum.splits)

lemma client_gets_gather:
  "client_gets (fst (gather U W lbl n filters))
   = concat (map (\<lambda>pc. if urls_of U (fst pc) = [] then []
                        else [(provider_client U n (fst pc), snd pc)]) filters)"
proof (induction filters)
  case Nil
  then show ?case by (simp add: gather_def client_gets_def)
next
  case (Cons pc filters)
  then show ?case
    using client_gets_query_one [of U W lbl n pc]
    by (simp add: gather_def client_gets_append)
qed

lemma save_calls_gather: "save_calls (fst (gather U W lbl n filters)) = []"
proof (induction filters)
  case Nil
  then show ?case by (simp add: gather_def save_calls_def)
next
  case (Cons pc filters)
  then show ?case
    using save_calls_query_one [of U W lbl n pc]
    by (simp add: gather_def save_calls_append)
qed

lemma length_gather: "length (snd (gather U W lbl n filters)) = length filters"
  by (simp add: gather_def)

lemma events_norm_result:
  "client_gets (fst (norm_result lbl r)) = []" "save_calls (fst (norm_result lbl r)) = []"
  by (cases r; simp add: client_gets_def save_calls_def)+

lemma events_normalise:
  "client_gets (fst (normalise lbl rs)) = [] \<and> save_calls (fst (normalise lbl rs)) = []"
proof (induction rs)
  case Nil
  then show ?case by (simp add: normalise_def client_gets_def save_calls_def)
next
  case (Cons r rs)
  then show ?case
    using events_norm_result [of lbl r]
    by (simp add: normalise_def client_gets_append save_calls_append)
qed

lemma length_normalise: "length (snd (normalise lbl rs)) = length rs"
  by (simp add: normalise_def)

lemma client_gets_save_all:
  "client_gets (fst (save_all U out_folder n is_cif rs acc)) = []"
proof (induction U out_folder n is_cif rs acc rule: save_all.induct)
  case (1 U out_folder n is_cif acc)
  then show ?case by (simp add: client_gets_def)
next
  case (2 U out_folder n is_cif e rs acc)
  then show ?case by (simp add: client_gets_def)
next
  case (3 U out_folder n is_cif res rs all_files all_warnings all_providers all_cleaned)
  show ?case
  proof (cases "save_structures U res out_folder n is_cif")
    case (Inl e)
    then show ?thesis by (simp add: client_gets_def)
  next
    case (Inr t)
    obtain files warns seen cleaned where t: "t = (files, warns, seen, cleaned)"
      by (cases t) auto
    from "3.IH" [OF Inr [unfolded t] refl refl refl] Inr t show ?thesis
      by (simp add: client_gets_def split: prod.splits)
  qed
qed

lemma client_gets_fan_out:
  "client_gets (fst (fan_out U W lbl n is_cif out_folder filters))
   = concat (map (\<lambda>pc. if urls_of U (fst pc) = [] then []
                        else [(provider_client U n (fst pc), snd pc)]) filters)"
  using client_gets_gather [of U W lbl n filters]
        events_normalise [of lbl "snd (gather U W lbl n filters)"]
        client_gets_save_all [of U out_folder n is_cif
                                "snd (normalise lbl (snd (gather U W lbl n filters)))"
                                "([], [], [], [])"]
  by (simp add: fan_out_def case_prod_beta client_gets_append)

lemma query_one_caught:
  assumes "urls_of U (fst pc) \<noteq> []"
    and "client_get W (provider_client U n (fst pc)) (snd pc) = Inl e"
    and "is_SystemExit_or_Exception e"
  shows "snd (query_one U W lbl n pc) = Inr empty_stub"
    and "Log ERROR (''['' @ lbl @ ''] fetch failed for '' @ fst pc @ '': '' @ exn_message e)
           \<in> set (fst (query_one U W lbl n pc))"
  using assms by (simp_all add: query_one_def Let_def)

lemma query_one_no_urls:
  "urls_of U (fst pc) = [] \<Longrightarrow>
   query_one U W lbl n pc
   = ([Log INFO (''['' @ lbl @ ''] '' @ fst pc @ '': '' @ snd pc),
       Log WARNING (''['' @ lbl @ ''] No URLs found for provider '' @ fst pc)],
      Inr empty_stub)"
  by (simp add: query_one_def Let_def)

lemma query_one_returns:
  assumes "\<forall>c f e. client_get W c f = Inl e \<longrightarrow> is_SystemExit_or_Exception e"
  shows "snd (query_one U W lbl n pc)
         = Inr (case snd (query_one U W lbl n pc) of Inr j \<Rightarrow> j | Inl e \<Rightarrow> empty_stub)"
  using assms by (auto simp: query_one_def Let_def split: sum.splits)

lemma normalise_results: "normalise lbl (map Inr js) = ([], map Inr js)"
  by (induction js) (simp_all add: normalise_def)

lemma save_all_results:
  assumes "\<forall>res p n c. \<exists>t. save_structures U res p n c = Inr t"
  shows "\<exists>ev acc. save_all U out_folder n is_cif (map Inr js) (fs, ws, ps, cs) = (ev, Inr acc)
                  \<and> save_calls ev = js"
proof (induction js arbitrary: fs ws ps cs)
  case Nil
  then show ?case by (simp add: save_calls_def)
next
  case (Cons j js)
  from assms obtain t where s: "save_structures U j out_folder n is_cif = Inr t"
    by blast
  obtain files warns seen cleaned where t: "t = (files, warns, seen, cleaned)"
    by (cases t) auto
  from Cons.IH [of "fs @ files" "ws @ warns" "ps @ seen" "cs @ cleaned"]
  obtain ev acc where
    "save_all U out_folder n is_cif (map Inr js)
       (fs @ files, ws @ warns, ps @ seen, cs @ cleaned) = (ev, Inr acc)"
    and "save_calls ev = js"
    by blast
  with s t show ?case
    by (simp add: save_calls_def del: split_paired_Ex)
qed

lemma fan_out_results:
  assumes "\<forall>c f e. client_get W c f = Inl e \<longrightarrow> is_SystemExit_or_Exception e"
    and "\<forall>res p n c. \<exists>t. save_structures U res p n c = Inr t"
  shows "\<exists>ev acc. fan_out U W lbl n is_cif out_folder filters = (ev, Inr acc)
           \<and> save_calls ev
               = map (\<lambda>pc. case snd (query_one U W lbl n pc) of Inr j \<Rightarrow> j
                                                              | Inl e \<Rightarrow> empty_stub) filters"
proof -
  let ?js = "map (\<lambda>pc. case snd (query_one U W lbl n pc) of Inr j \<Rightarrow> j
                                                        | Inl e \<Rightarrow> empty_stub) filters"
  have g: "snd (gather U W lbl n filters) = map Inr ?js"
    using query_one_returns [OF assms(1), of U lbl n]
    by (simp add: gather_def)
  from save_all_results [OF assms(2), of out_folder n is_cif ?js "[]" "[]" "[]" "[]"]
  obtain ev acc where
    s: "save_all U out_folder n is_cif (map Inr ?js) ([], [], [], []) = (ev, Inr acc)" and
    c: "save_calls ev = ?js"
    by blast
  have nm: "normalise lbl (snd (gather U W lbl n filters)) = ([], map Inr ?js)"
    by (simp only: g normalise_results)
  have "fan_out U W lbl n is_cif out_folder filters
        = (fst (gather U W lbl n filters) @ ev, Inr acc)"
    by (simp only: fan_out_def case_prod_beta nm s fst_conv snd_conv append_Nil)
  moreover have "save_calls (fst (gather U W lbl n filters) @ ev) = ?js"
    using c by (simp add: save_calls_append save_calls_gather)
  ultimately show ?thesis
    by blast
qed


lemma spg_client_gets:
  "client_gets (fst (fetch_structures_with_spg L U W a))
   = concat (map (\<lambda>pc. if urls_of U (fst pc) = [] then []
                        else [(provider_client U (n_results_o a) (fst pc), snd pc)])
               (spg_filters U a))"
proof (cases "spg_filters U a = []")
  case True
  then show ?thesis
    by (simp add: fetch_structures_with_spg_def Let_def client_gets_def)
next
  case False
  obtain ev res where
    f: "fan_out U W ''spg'' (n_results_o a) (as_format a = ''cif'')
          (spg_out_folder L U (now_optimade W) a) (spg_filters U a) = (ev, res)"
    by (cases "fan_out U W ''spg'' (n_results_o a) (as_format a = ''cif'')
                 (spg_out_folder L U (now_optimade W) a) (spg_filters U a)")
  from client_gets_fan_out [of U W "''spg''" "n_results_o a" "as_format a = ''cif''"
                               "spg_out_folder L U (now_optimade W) a" "spg_filters U a"] f
  have "client_gets ev
        = concat (map (\<lambda>pc. if urls_of U (fst pc) = [] then []
                        else [(provider_client U (n_results_o a) (fst pc), snd pc)])
               (spg_filters U a))"
    by simp
  with False f show ?thesis
    by (cases res) (simp_all add: fetch_structures_with_spg_def Let_def client_gets_append,
                    simp add: client_gets_def)
qed

lemma bandgap_client_gets:
  "client_gets (fst (fetch_structures_with_bandgap L U W a))
   = concat (map (\<lambda>pc. if urls_of U (fst pc) = [] then []
                        else [(provider_client U (n_results_o a) (fst pc), snd pc)])
               (bandgap_filters U a))"
proof (cases "bandgap_filters U a = []")
  case True
  then show ?thesis
    by (simp add: fetch_structures_with_bandgap_def Let_def client_gets_def)
next
  case False
  obtain ev res where
    f: "fan_out U W ''bandgap'' (n_results_o a) (as_format a = ''cif'')
          (bandgap_out_folder L U (now_optimade W) a) (bandgap_filters U a) = (ev, res)"
    by (cases "fan_out U W ''bandgap'' (n_results_o a) (as_format a = ''cif'')
                 (bandgap_out_folder L U (now_optimade W) a) (bandgap_filters U a)")
  from client_gets_fan_out [of U W "''bandgap''" "n_results_o a" "as_format a = ''cif''"
                               "bandgap_out_folder L U (now_optimade W) a" "bandgap_filters U a"] f
  have "client_gets ev
        = concat (map (\<lambda>pc. if urls_of U (fst pc) = [] then []
                        else [(provider_client U (n_results_o a) (fst pc), snd pc)])
               (bandgap_filters U a))"
    by simp
  with False f show ?thesis
    by (cases res) (simp_all add: fetch_structures_with_bandgap_def Let_def client_gets_append,
                    simp add: client_gets_def)
qed

lemma spg_completes:
  assumes "spg_filters U a \<noteq> []"
    and "\<forall>c f e. client_get W c f = Inl e \<longrightarrow> is_SystemExit_or_Exception e"
    and "\<forall>res p n c. \<exists>t. save_structures U res p n c = Inr t"
  shows "(\<exists>r. snd (fetch_structures_with_spg L U W a) = Inr r
              \<and> output_dir r = spg_out_folder L U (now_optimade W) a)
         \<and> save_calls (fst (fetch_structures_with_spg L U W a))
             = map (\<lambda>pc. case snd (query_one U W ''spg'' (n_results_o a) pc) of
                            Inr j \<Rightarrow> j | Inl e \<Rightarrow> empty_stub) (spg_filters U a)
         \<and> (\<exists>m. WriteFile (Slash (spg_out_folder L U (now_optimade W) a) ''summary.json'')
                   (JsonDump m) \<in> set (fst (fetch_structures_with_spg L U W a)))"
proof -
  from fan_out_results [OF assms(2,3), of "''spg''" "n_results_o a" "as_format a = ''cif''"
                           "spg_out_folder L U (now_optimade W) a" "spg_filters U a"]
  obtain ev acc where
    f: "fan_out U W ''spg'' (n_results_o a) (as_format a = ''cif'')
          (spg_out_folder L U (now_optimade W) a) (spg_filters U a) = (ev, Inr acc)" and
    c: "save_calls ev
        = map (\<lambda>pc. case snd (query_one U W ''spg'' (n_results_o a) pc) of
                       Inr j \<Rightarrow> j | Inl e \<Rightarrow> empty_stub) (spg_filters U a)"
    by blast
  from assms(1) f c show ?thesis
    by (auto simp: fetch_structures_with_spg_def Let_def save_calls_append)
       (simp add: save_calls_def)
qed

lemma bandgap_completes:
  assumes "bandgap_filters U a \<noteq> []"
    and "\<forall>c f e. client_get W c f = Inl e \<longrightarrow> is_SystemExit_or_Exception e"
    and "\<forall>res p n c. \<exists>t. save_structures U res p n c = Inr t"
  shows "(\<exists>r. snd (fetch_structures_with_bandgap L U W a) = Inr r
              \<and> output_dir r = bandgap_out_folder L U (now_optimade W) a)
         \<and> save_calls (fst (fetch_structures_with_bandgap L U W a))
             = map (\<lambda>pc. case snd (query_one U W ''bandgap'' (n_results_o a) pc) of
                            Inr j \<Rightarrow> j | Inl e \<Rightarrow> empty_stub) (bandgap_filters U a)
         \<and> (\<exists>m. WriteFile (Slash (bandgap_out_folder L U (now_optimade W) a) ''summary.json'')
                   (JsonDump m) \<in> set (fst (fetch_structures_with_bandgap L U W a)))"
proof -
  from fan_out_results [OF assms(2,3), of "''bandgap''" "n_results_o a" "as_format a = ''cif''"
                           "bandgap_out_folder L U (now_optimade W) a" "bandgap_filters U a"]
  obtain ev acc where
    f: "fan_out U W ''bandgap'' (n_results_o a) (as_format a = ''cif'')
          (bandgap_out_folder L U (now_optimade W) a) (bandgap_filters U a) = (ev, Inr acc)" and
    c: "save_calls ev
        = map (\<lambda>pc. case snd (query_one U W ''bandgap'' (n_results_o a) pc) of
                       Inr j \<Rightarrow> j | Inl e \<Rightarrow> empty_stub) (bandgap_filters U a)"
    by blast
  from assms(1) f c show ?thesis
    by (auto simp: fetch_structures_with_bandgap_def Let_def save_calls_append)
       (simp add: save_calls_def)
qed

text \<open>
  Claim C1, as amended. The space-group and the band-gap tool run one \<open>_query_one\<close>
  task for each provider that has a clause in the per-provider filter map, and none for
  a selected provider without one. A task sends one client query when the provider has
  a URL in \<open>URLS_FROM_PROVIDERS\<close>, and none (it returns the empty stub) when it has not.
  An \<open>Exception\<close> or \<open>SystemExit\<close> raised by the query is logged and turned into the
  stub \<open>{"structures": {}}\<close>. So when the filter map is not empty, the client raises
  nothing else and \<open>save_structures\<close> returns, the tool returns, \<open>save_structures\<close> has
  been called on one result dict for each clause, in their order, and the manifest has
  been written. When the filter map is empty the tool returns the zero-result default
  at once: no query, no saving, no manifest. (The model runs the tasks one after the
  other; that they run concurrently is not stated.)
\<close>

theorem one_task_per_provider_clause:
  "(spg_filters U a2 = [] \<longrightarrow>
      fetch_structures_with_spg L U W a2
      = ([Log WARNING ''[spg] no provider-specific space-group clause available''],
         Inr zero_result))
   \<and> client_gets (fst (fetch_structures_with_spg L U W a2))
       = concat (map (\<lambda>pc. if urls_of U (fst pc) = [] then []
                            else [(provider_client U (n_results_o a2) (fst pc), snd pc)])
                   (spg_filters U a2))
   \<and> (spg_filters U a2 \<noteq> []
       \<and> (\<forall>c f e. client_get W c f = Inl e \<longrightarrow> is_SystemExit_or_Exception e)
       \<and> (\<forall>res p n c. \<exists>t. save_structures U res p n c = Inr t) \<longrightarrow>
         (\<exists>r. snd (fetch_structures_with_spg L U W a2) = Inr r
               \<and> output_dir r = spg_out_folder L U (now_optimade W) a2)
         \<and> save_calls (fst (fetch_structures_with_spg L U W a2))
             = map (\<lambda>pc. case snd (query_one U W ''spg'' (n_results_o a2) pc) of
                            Inr j \<Rightarrow> j | Inl e \<Rightarrow> empty_stub) (spg_filters U a2)
         \<and> (\<exists>m. WriteFile (Slash (spg_out_folder L U (now_optimade W) a2) ''summary.json'')
                   (JsonDump m) \<in> set (fst (fetch_structures_with_spg L U W a2))))
   \<and> (bandgap_filters U a3 = [] \<longrightarrow>
        fetch_structures_with_bandgap L U W a3
        = ([Log WARNING ''[bandgap] no provider-specific band-gap clause available''],
           Inr zero_result))
   \<and> client_gets (fst (fetch_structures_with_bandgap L U W a3))
       = concat (map (\<lambda>pc. if urls_of U (fst pc) = [] then []
                            else [(provider_client U (n_results_o a3) (fst pc), snd pc)])
                   (bandgap_filters U a3))
   \<and> (bandgap_filters U a3 \<noteq> []
       \<and> (\<forall>c f e. client_get W c f = Inl e \<longrightarrow> is_SystemExit_or_Exception e)
       \<and> (\<forall>res p n c. \<exists>t. save_structures U res p n c = Inr t) \<longrightarrow>
         (\<exists>r. snd (fetch_structures_with_bandgap L U W a3) = Inr r
               \<and> output_dir r = bandgap_out_folder L U (now_optimade W) a3)
         \<and> save_calls (fst (fetch_structures_with_bandgap L U W a3))
             = map (\<lambda>pc. case snd (query_one U W ''bandgap'' (n_results_o a3) pc) of
                            Inr j \<Rightarrow> j | Inl e \<Rightarrow> empty_stub) (bandgap_filters U a3)
         \<and> (\<exists>m. WriteFile (Slash (bandgap_out_folder L U (now_optimade W) a3) ''summary.json'')
                   (JsonDump m) \<in> set (fst (fetch_structures_with_bandgap L U W a3))))
   \<and> (\<forall>lbl n pc e.
         urls_of U (fst pc) \<noteq> []
         \<and> client_get W (provider_client U n (fst pc)) (snd pc) = Inl e
         \<and> is_SystemExit_or_Exception e \<longrightarrow>
           snd (query_one U W lbl n pc) = Inr empty_stub
           \<and> Log ERROR (''['' @ lbl @ ''] fetch failed for '' @ fst pc @ '': '' @ exn_message e)
               \<in> set (fst (query_one U W lbl n pc)))
   \<and> (\<forall>lbl n pc.
         urls_of U (fst pc) = [] \<longrightarrow>
           query_one U W lbl n pc
           = ([Log INFO (''['' @ lbl @ ''] '' @ fst pc @ '': '' @ snd pc),
               Log WARNING (''['' @ lbl @ ''] No URLs found for provider '' @ fst pc)],
              Inr empty_stub))
   \<and> empty_stub = JDict [(''structures'', JDict [])]"
  apply (intro conjI)
  subgoal by (simp add: fetch_structures_with_spg_def Let_def)
  subgoal by (rule spg_client_gets)
  subgoal using spg_completes [of U a2 W L] by blast
  subgoal by (simp add: fetch_structures_with_bandgap_def Let_def)
  subgoal by (rule bandgap_client_gets)
  subgoal using bandgap_completes [of U a3 W L] by blast
  subgoal by (blast intro: query_one_caught)
  subgoal by (blast intro: query_one_no_urls)
  subgoal by (simp add: empty_stub_def)
  done


theorem one_task_per_provider_clause_witness:
  "spg_filters sample_utils sample_spg_args
     = [(''oqmd'', ''_oqmd_spacegroup=225''), (''tcod'', ''_tcod_spacegroup=225'')]
   \<and> (\<exists>r. snd (fetch_structures_with_spg sample_lib sample_utils failing_optimade_world
                  sample_spg_args) = Inr r
          \<and> output_dir r
              = spg_out_folder sample_lib sample_utils (now_optimade failing_optimade_world)
                  sample_spg_args)
   \<and> save_calls (fst (fetch_structures_with_spg sample_lib sample_utils failing_optimade_world
                         sample_spg_args))
       = map (\<lambda>pc. case snd (query_one sample_utils failing_optimade_world ''spg''
                                (n_results_o sample_spg_args) pc) of
                      Inr j \<Rightarrow> j | Inl e \<Rightarrow> empty_stub)
           (spg_filters sample_utils sample_spg_args)
   \<and> save_calls (fst (fetch_structures_with_spg sample_lib sample_utils failing_optimade_world
                         sample_spg_args))
       = [JDict [(''structures'', JDict [])], JDict [(''structures'', JDict [])]]
   \<and> client_gets (fst (fetch_structures_with_spg sample_lib sample_utils failing_optimade_world
                          sample_spg_args))
       = concat (map (\<lambda>pc. if urls_of sample_utils (fst pc) = [] then []
                            else [(provider_client sample_utils (n_results_o sample_spg_args)
                                     (fst pc), snd pc)])
                   (spg_filters sample_utils sample_spg_args))"
proof -
  have clauses: "spg_filters sample_utils sample_spg_args
     = [(''oqmd'', ''_oqmd_spacegroup=225''), (''tcod'', ''_tcod_spacegroup=225'')]"
    by code_simp
  then have some: "spg_filters sample_utils sample_spg_args \<noteq> []"
    by simp
  have caught: "\<forall>c f e. client_get failing_optimade_world c f = Inl e
                  \<longrightarrow> is_SystemExit_or_Exception e"
    by (auto simp: failing_optimade_world_def)
  have saves: "\<forall>res p n c. \<exists>t. save_structures sample_utils res p n c = Inr t"
    by (simp add: sample_utils_def)
  have stubs: "save_calls (fst (fetch_structures_with_spg sample_lib sample_utils
                                  failing_optimade_world sample_spg_args))
       = [JDict [(''structures'', JDict [])], JDict [(''structures'', JDict [])]]"
    by code_simp
  note T = one_task_per_provider_clause
             [of sample_utils sample_spg_args sample_lib failing_optimade_world]
  note Q = T [THEN conjunct2, THEN conjunct1]
  note C = T [THEN conjunct2, THEN conjunct2, THEN conjunct1, rule_format,
              OF conjI [OF some conjI [OF caught saves]]]
  show ?thesis
    by (rule conjI [OF clauses conjI [OF C [THEN conjunct1]
          conjI [OF C [THEN conjunct2, THEN conjunct1] conjI [OF stubs Q]]]])
qed

text \<open>
  Claim C1 as stated fails where a selected provider has no clause or no URL. With the
  sample tables, the space-group request selects three providers, sends one query and
  saves two result dicts; the band-gap request selects one provider and returns before
  any query, saving or manifest.
\<close>

theorem selected_provider_without_query:
  "used_set (providers sample_spg_args) (DEFAULT_SPG_PROVIDERS sample_utils)
     = [''oqmd'', ''tcod'', ''mp'']
   \<and> client_gets (fst (fetch_structures_with_spg sample_lib sample_utils sample_optimade_world
                          sample_spg_args))
     = [(\<lparr>base_urls = [''https://oqmd.org/optimade''], max_results_per_provider = 3,
          http_timeout = 25\<rparr>, ''_oqmd_spacegroup=225'')]
   \<and> save_calls (fst (fetch_structures_with_spg sample_lib sample_utils sample_optimade_world
                         sample_spg_args))
     = [JDict [(''structures'', JList [JDict [(''id'', JStr ''oqmd-1'')]])],
        JDict [(''structures'', JDict [])]]
   \<and> used_set (providers sample_bandgap_args) (DEFAULT_BG_PROVIDERS sample_utils) = [''mp'']
   \<and> fetch_structures_with_bandgap sample_lib sample_utils sample_optimade_world
       sample_bandgap_args
     = ([Log WARNING ''[bandgap] no provider-specific band-gap clause available''],
        Inr \<lparr>output_dir = Path ''.'', cleaned_structures = [], n_found = 0\<rparr>)"
proof -
  have a: "used_set (providers sample_spg_args) (DEFAULT_SPG_PROVIDERS sample_utils)
     = [''oqmd'', ''tcod'', ''mp'']"
    by code_simp
  have b: "client_gets (fst (fetch_structures_with_spg sample_lib sample_utils
                               sample_optimade_world sample_spg_args))
     = [(\<lparr>base_urls = [''https://oqmd.org/optimade''], max_results_per_provider = 3,
          http_timeout = 25\<rparr>, ''_oqmd_spacegroup=225'')]"
    by code_simp
  have c: "save_calls (fst (fetch_structures_with_spg sample_lib sample_utils
                              sample_optimade_world sample_spg_args))
     = [JDict [(''structures'', JList [JDict [(''id'', JStr ''oqmd-1'')]])],
        JDict [(''structures'', JDict [])]]"
    by code_simp
  have d: "used_set (providers sample_bandgap_args) (DEFAULT_BG_PROVIDERS sample_utils)
     = [''mp'']"
    by code_simp
  have e: "fetch_structures_with_bandgap sample_lib sample_utils sample_optimade_world
       sample_bandgap_args
     = ([Log WARNING ''[bandgap] no provider-specific band-gap clause available''],
        Inr \<lparr>output_dir = Path ''.'', cleaned_structures = [], n_found = 0\<rparr>)"
    by code_simp
  show ?thesis
    by (rule conjI [OF a conjI [OF b conjI [OF c conjI [OF d e]]]])
qed

end
